theory Spec2Isabelle
  imports Main "HOL-Library.Sublist"
begin

section \<open>Strings\<close>

text \<open>
  A Python \<open>str\<close> is modelled as a \<open>string\<close> holding its UTF-8 bytes. Equality,
  concatenation, \<open>startswith\<close>, slicing after an ASCII prefix and the search for an ASCII
  substring are exact on that representation. A character is a byte that does not continue
  a UTF-8 sequence followed by the bytes that do; \<open>len\<close> counts characters and \<open>strip\<close>
  removes whole characters.
\<close>

definition whitespace :: "string list" where
  \<comment> \<open>the 29 characters for which \<open>str.isspace\<close> holds, each as its UTF-8 bytes: U+0009 to
      U+000D, U+001C to U+001F, U+0020, U+0085, U+00A0, U+1680, U+2000 to U+200A, U+2028,
      U+2029, U+202F, U+205F, U+3000\<close>
  "whitespace =
     [ [CHR 0x09], [CHR 0x0A], [CHR 0x0B], [CHR 0x0C], [CHR 0x0D],
      [CHR 0x1C], [CHR 0x1D], [CHR 0x1E], [CHR 0x1F], [CHR 0x20],
      [CHR 0xC2, CHR 0x85], [CHR 0xC2, CHR 0xA0], [CHR 0xE1, CHR 0x9A, CHR 0x80],
      [CHR 0xE2, CHR 0x80, CHR 0x80], [CHR 0xE2, CHR 0x80, CHR 0x81],
      [CHR 0xE2, CHR 0x80, CHR 0x82], [CHR 0xE2, CHR 0x80, CHR 0x83],
      [CHR 0xE2, CHR 0x80, CHR 0x84], [CHR 0xE2, CHR 0x80, CHR 0x85],
      [CHR 0xE2, CHR 0x80, CHR 0x86], [CHR 0xE2, CHR 0x80, CHR 0x87],
      [CHR 0xE2, CHR 0x80, CHR 0x88], [CHR 0xE2, CHR 0x80, CHR 0x89],
      [CHR 0xE2, CHR 0x80, CHR 0x8A], [CHR 0xE2, CHR 0x80, CHR 0xA8],
      [CHR 0xE2, CHR 0x80, CHR 0xA9], [CHR 0xE2, CHR 0x80, CHR 0xAF],
      [CHR 0xE2, CHR 0x81, CHR 0x9F], [CHR 0xE3, CHR 0x80, CHR 0x80] ]"

definition leading_space :: "string \<Rightarrow> nat" where
  \<comment> \<open>the number of bytes of the whitespace character that \<open>s\<close> starts with, 0 when it
      starts with none\<close>
  "leading_space s = (case find (\<lambda>w. prefix w s) whitespace of None \<Rightarrow> 0 | Some w \<Rightarrow> length w)"

definition trailing_space :: "string \<Rightarrow> nat" where
  \<comment> \<open>the number of bytes of the whitespace character that \<open>s\<close> ends with, 0 when it ends
      with none\<close>
  "trailing_space s = (case find (\<lambda>w. suffix w s) whitespace of None \<Rightarrow> 0 | Some w \<Rightarrow> length w)"

function lstrip :: "string \<Rightarrow> string" where
  \<comment> \<open>\<open>s.lstrip()\<close>\<close>
  "lstrip s = (if leading_space s = 0 then s else lstrip (drop (leading_space s) s))"
  by pat_completeness auto
termination
proof (relation "measure length")
  show "wf (measure length)" by simp
next
  fix s :: string
  assume "leading_space s \<noteq> 0"
  moreover have "leading_space s \<le> length s"
    by (auto simp: leading_space_def find_Some_iff prefix_def split: option.splits)
  ultimately show "(drop (leading_space s) s, s) \<in> measure length" by simp
qed

function rstrip :: "string \<Rightarrow> string" where
  \<comment> \<open>\<open>s.rstrip()\<close>\<close>
  "rstrip s = (if trailing_space s = 0 then s else rstrip (take (length s - trailing_space s) s))"
  by pat_completeness auto
termination
proof (relation "measure length")
  show "wf (measure length)" by simp
next
  fix s :: string
  assume "trailing_space s \<noteq> 0"
  moreover have "trailing_space s \<le> length s"
    by (auto simp: trailing_space_def find_Some_iff suffix_def split: option.splits)
  ultimately show "(take (length s - trailing_space s) s, s) \<in> measure length" by simp
qed

declare lstrip.simps [simp del] rstrip.simps [simp del]

definition strip :: "string \<Rightarrow> string" where
  \<comment> \<open>\<open>s.strip()\<close>\<close>
  "strip s = rstrip (lstrip s)"

definition py_len :: "string \<Rightarrow> nat" where
  \<comment> \<open>\<open>len(s)\<close>: the bytes 0x80 to 0xBF continue a character, every other byte starts one\<close>
  "py_len s = length (filter (\<lambda>c. \<not> (0x80 \<le> (of_char c :: nat) \<and> (of_char c :: nat) < 0xC0)) s)"

text \<open>
  \<open>lower\<close> folds the letters A to Z and leaves every other byte as it is. \<open>str.lower\<close> also
  maps letters outside ASCII; none of them is mapped to a letter of \<open>cancel\<close> (U+0130 gives
  \<open>i\<close> and U+212A gives \<open>k\<close>, the only ASCII letters so obtained), so that the search for
  the keywords in \<open>query_lower\<close> is the one of the source on every query. The comparisons
  of \<open>get_fare\<close> and \<open>validate_route\<close> are those of the source on ASCII names.
\<close>

definition lower_char :: "char \<Rightarrow> char" where
  "lower_char c =
     (case map_of (zip ''ABCDEFGHIJKLMNOPQRSTUVWXYZ'' ''abcdefghijklmnopqrstuvwxyz'') c of
        Some d \<Rightarrow> d
      | None \<Rightarrow> c)"

definition lower :: "string \<Rightarrow> string" where
  \<comment> \<open>\<open>s.lower()\<close>\<close>
  "lower s = map lower_char s"

definition startswith :: "string \<Rightarrow> string \<Rightarrow> bool" where
  \<comment> \<open>\<open>s.startswith(p)\<close>\<close>
  "startswith s p = prefix p s"

definition contains :: "string \<Rightarrow> string \<Rightarrow> bool" where
  \<comment> \<open>\<open>k in s\<close> on strings\<close>
  "contains s k = sublist k s"

definition digit_char :: "nat \<Rightarrow> char" where
  "digit_char d = ''0123456789'' ! d"

fun str_nat :: "nat \<Rightarrow> string" where
  \<comment> \<open>the decimal digits of a natural number, as \<open>str(n)\<close> gives them\<close>
  "str_nat n = (if n < 10 then [digit_char n] else str_nat (n div 10) @ [digit_char (n mod 10)])"

declare str_nat.simps [simp del]

definition format_05d :: "nat \<Rightarrow> string" where
  \<comment> \<open>the format specification \<open>05d\<close>: zero padding on the left up to width 5\<close>
  "format_05d n = (let s = str_nat n in replicate (5 - length s) CHR ''0'' @ s)"



section \<open>The booking store (backend/database.py)\<close>

text \<open>
  The dictionary \<open>booking_data\<close> that \<open>create_booking\<close> receives and returns, with the
  keys the endpoint gives it.
\<close>

record booking =
  booking_id :: string
  name :: string
  phone :: string
  bus_provider :: string
  from_district :: string
  to_district :: string
  dropping_point :: string
  travel_date :: string
  num_passengers :: int
  fare :: int
  total_amount :: int
  booking_date :: string
  status :: string

text \<open>
  A row of the table \<open>bookings\<close>, as \<open>dict(row)\<close> returns it: the columns above, then
  \<open>cancelled_date\<close> and \<open>created_at\<close>. \<open>created_at\<close> is filled in by SQLite with
  \<open>CURRENT_TIMESTAMP\<close>, the time in whole seconds; it is kept as the number of the second
  (its text \<open>YYYY-MM-DD HH:MM:SS\<close> orders as the time does). The column \<open>id\<close> numbers the
  rows in insertion order; the table is kept as the list of its rows in that order.
\<close>

record booking_row = booking +
  cancelled_date :: "string option"
  created_at :: nat

text \<open>A row of \<open>chat_history\<close>: session identifier, phone, role, message.\<close>

type_synonym chat_row = "string \<times> string option \<times> string \<times> string"

text \<open>A row of \<open>deleted_bookings\<close>: booking identifier, the archived row, the phone.\<close>

type_synonym deleted_row = "string \<times> booking_row \<times> string"

record database =
  bookings :: "booking_row list"
  chat_history :: "chat_row list"
  deleted_bookings :: "deleted_row list"

datatype error =
    HTTPException nat string  \<comment> \<open>status code and detail\<close>
  | IntegrityError            \<comment> \<open>raised by SQLite when \<open>booking_id TEXT UNIQUE\<close> is violated\<close>

definition create_booking :: "nat \<Rightarrow> booking \<Rightarrow> database \<Rightarrow> error + (booking \<times> database)" where
  \<comment> \<open>the INSERT names twelve keys of the dictionary and the status \<open>'active'\<close>;
      \<open>current_timestamp\<close> is the second at which SQLite inserts the row; the dictionary
      itself is returned\<close>
  "create_booking current_timestamp booking_data db =
     (if booking_id booking_data \<in> set (map booking_id (bookings db)) then Inl IntegrityError
      else Inr (booking_data,
                db\<lparr>bookings := bookings db @
                      [\<lparr>booking_id = booking_id booking_data,
                        name = name booking_data,
                        phone = phone booking_data,
                        bus_provider = bus_provider booking_data,
                        from_district = from_district booking_data,
                        to_district = to_district booking_data,
                        dropping_point = dropping_point booking_data,
                        travel_date = travel_date booking_data,
                        num_passengers = num_passengers booking_data,
                        fare = fare booking_data,
                        total_amount = total_amount booking_data,
                        booking_date = booking_date booking_data,
                        status = ''active'',
                        cancelled_date = None,
                        created_at = current_timestamp\<rparr>]\<rparr>))"

definition get_bookings_by_phone :: "string \<Rightarrow> database \<Rightarrow> booking_row list" where
  \<comment> \<open>\<open>WHERE phone = ? ORDER BY created_at DESC\<close>: the rows of the phone by falling
      \<open>created_at\<close>; rows of one second stay in the order of the table (the reversed list
      is sorted by rising \<open>created_at\<close>, stably, and reversed again)\<close>
  "get_bookings_by_phone p db =
     rev (sort_key created_at (rev (filter (\<lambda>b. phone b = p) (bookings db))))"

definition get_booking_by_id :: "string \<Rightarrow> database \<Rightarrow> booking_row option" where
  "get_booking_by_id bid db = find (\<lambda>b. booking_id b = bid) (bookings db)"

definition delete_booking_permanently :: "string \<Rightarrow> database \<Rightarrow> bool \<times> database" where
  "delete_booking_permanently bid db =
     (case find (\<lambda>b. booking_id b = bid) (bookings db) of
        None \<Rightarrow> (False, db)
      | Some booking_data \<Rightarrow>
          (True,
           db\<lparr>deleted_bookings := deleted_bookings db @ [(bid, booking_data, phone booking_data)],
              bookings := filter (\<lambda>b. booking_id b \<noteq> bid) (bookings db)\<rparr>))"

definition cancel_row :: "string \<Rightarrow> string \<Rightarrow> booking_row \<Rightarrow> booking_row" where
  \<comment> \<open>the UPDATE of \<open>cancel_booking\<close> on one row: \<open>SET status = 'cancelled', cancelled_date = ?\<close>
      \<open>WHERE booking_id = ? AND status = 'active'\<close>\<close>
  "cancel_row bid now b =
     (if booking_id b = bid \<and> status b = ''active''
      then b\<lparr>status := ''cancelled'', cancelled_date := Some now\<rparr> else b)"

definition cancel_booking :: "string \<Rightarrow> string \<Rightarrow> database \<Rightarrow> bool \<times> database" where
  \<comment> \<open>\<open>now\<close> is \<open>datetime.now().isoformat()\<close>; the result is \<open>rows_affected > 0\<close>\<close>
  "cancel_booking bid now db =
     (let rows_affected = length (filter (\<lambda>b. booking_id b = bid \<and> status b = ''active'') (bookings db))
      in (rows_affected > 0, db\<lparr>bookings := map (cancel_row bid now) (bookings db)\<rparr>))"

definition generate_booking_id :: "database \<Rightarrow> string" where
  \<comment> \<open>\<open>SELECT COUNT(*)\<close>, then \<open>f"BK{count + 1:05d}"\<close>\<close>
  "generate_booking_id db = (let count = length (bookings db) in ''BK'' @ format_05d (count + 1))"

definition save_chat_message :: "string \<Rightarrow> string \<Rightarrow> string \<Rightarrow> string option \<Rightarrow> database \<Rightarrow> database" where
  "save_chat_message session_id role message ph db =
     db\<lparr>chat_history := chat_history db @ [(session_id, ph, role, message)]\<rparr>"


section \<open>Bus data and booking creation (backend/main.py)\<close>

text \<open>
  \<open>bus_data\<close> is loaded from \<open>data.json\<close>; it is a parameter of the functions that
  read it.
\<close>

record dropping_point_entry =
  dp_name :: string
  dp_price :: int

record district_entry =
  d_name :: string
  d_dropping_points :: "dropping_point_entry list"

record provider_entry =
  p_name :: string
  p_coverage_districts :: "string list"

record bus_data =
  districts :: "district_entry list"
  bus_providers :: "provider_entry list"

text \<open>The request body of \<open>POST /bookings\<close> (class \<open>BookingCreate\<close>).\<close>

record BookingCreate =
  bc_name :: string
  bc_phone :: string
  bc_bus_provider :: string
  bc_from_district :: string
  bc_to_district :: string
  bc_dropping_point :: string
  bc_travel_date :: string
  bc_num_passengers :: int

definition BookingCreate_valid :: "BookingCreate \<Rightarrow> bool" where
  \<comment> \<open>the \<open>Field\<close> constraints, checked before the endpoint runs; the lengths are numbers
      of characters\<close>
  "BookingCreate_valid b =
     (2 \<le> py_len (bc_name b) \<and> py_len (bc_name b) \<le> 100 \<and>
      11 \<le> py_len (bc_phone b) \<and> py_len (bc_phone b) \<le> 15 \<and>
      1 \<le> bc_num_passengers b \<and> bc_num_passengers b \<le> 10)"

fun get_fare_points :: "dropping_point_entry list \<Rightarrow> string \<Rightarrow> int option" where
  \<comment> \<open>the inner loop of \<open>get_fare\<close>\<close>
  "get_fare_points [] dropping = None"
| "get_fare_points (dp # dps) dropping =
     (if lower (dp_name dp) = lower dropping then Some (dp_price dp)
      else get_fare_points dps dropping)"

fun get_fare_districts :: "district_entry list \<Rightarrow> string \<Rightarrow> string \<Rightarrow> int" where
  \<comment> \<open>the outer loop of \<open>get_fare\<close>; a district whose points do not match does not end it\<close>
  "get_fare_districts [] district dropping = 0"
| "get_fare_districts (dist # dists) district dropping =
     (if lower (d_name dist) = lower district then
        (case get_fare_points (d_dropping_points dist) dropping of
           Some price \<Rightarrow> price
         | None \<Rightarrow> get_fare_districts dists district dropping)
      else get_fare_districts dists district dropping)"

definition get_fare :: "bus_data \<Rightarrow> string \<Rightarrow> string \<Rightarrow> int" where
  "get_fare data district dropping = get_fare_districts (districts data) district dropping"

fun validate_route_providers :: "provider_entry list \<Rightarrow> string \<Rightarrow> string \<Rightarrow> string \<Rightarrow> bool" where
  "validate_route_providers [] provider from_d to_d = False"
| "validate_route_providers (p # ps) provider from_d to_d =
     (if lower (p_name p) = lower provider then
        (let coverage_lower = map lower (p_coverage_districts p)
         in lower from_d \<in> set coverage_lower \<and> lower to_d \<in> set coverage_lower)
      else validate_route_providers ps provider from_d to_d)"

definition validate_route :: "bus_data \<Rightarrow> string \<Rightarrow> string \<Rightarrow> string \<Rightarrow> bool" where
  "validate_route data provider from_d to_d =
     validate_route_providers (bus_providers data) provider from_d to_d"

definition quote :: string where
  "quote = [CHR 0x27]"

definition create_booking_endpoint ::
  "bus_data \<Rightarrow> string \<Rightarrow> nat \<Rightarrow> BookingCreate \<Rightarrow> database \<Rightarrow> error + (booking \<times> database)" where
  \<comment> \<open>\<open>now\<close> is \<open>datetime.now().isoformat()\<close>, \<open>current_timestamp\<close> the second of the INSERT\<close>
  "create_booking_endpoint data now current_timestamp booking db =
     (let provider_exists =
            list_ex (\<lambda>p. lower (p_name p) = lower (bc_bus_provider booking)) (bus_providers data)
      in
      if \<not> provider_exists then
        Inl (HTTPException 400 (''Bus provider '' @ quote @ bc_bus_provider booking @ quote @ '' not found''))
      else if \<not> validate_route data (bc_bus_provider booking) (bc_from_district booking)
                   (bc_to_district booking) then
        Inl (HTTPException 400 (bc_bus_provider booking @ '' does not operate between '' @
               bc_from_district booking @ '' and '' @ bc_to_district booking))
      else
        (let fare = get_fare data (bc_to_district booking) (bc_dropping_point booking) in
         if fare = 0 then
           Inl (HTTPException 400 (''Dropping point '' @ quote @ bc_dropping_point booking @ quote @
                  '' not found in '' @ bc_to_district booking))
         else
           (let new_booking_data =
                  \<lparr>booking_id = generate_booking_id db,
                   name = bc_name booking,
                   phone = strip (bc_phone booking),
                   bus_provider = bc_bus_provider booking,
                   from_district = bc_from_district booking,
                   to_district = bc_to_district booking,
                   dropping_point = bc_dropping_point booking,
                   travel_date = bc_travel_date booking,
                   num_passengers = bc_num_passengers booking,
                   fare = fare,
                   total_amount = fare * bc_num_passengers booking,
                   booking_date = now,
                   status = ''active''\<rparr>
            in create_booking current_timestamp new_booking_data db)))"

definition delete_booking_endpoint ::
  "string \<Rightarrow> string \<Rightarrow> bool \<Rightarrow> database \<Rightarrow> error + (string \<times> database)" where
  \<comment> \<open>\<open>DELETE /bookings/{booking_id}\<close>; \<open>now\<close> is the time read by \<open>cancel_booking\<close>\<close>
  "delete_booking_endpoint now bid permanent db =
     (if permanent then
        (case delete_booking_permanently bid db of
           (success, db') \<Rightarrow>
             if success then Inr (''Booking '' @ bid @ '' deleted permanently.'', db')
             else Inl (HTTPException 404 ''Booking not found''))
      else
        (case cancel_booking bid now db of
           (success, db') \<Rightarrow>
             if success then Inr (''Booking '' @ bid @ '' cancelled.'', db')
             else Inl (HTTPException 404 ''Booking not found'')))"


section \<open>The session query router (backend/main.py, \<open>query_smart\<close>)\<close>

text \<open>An entry of the dictionary \<open>sessions\<close>.\<close>

record session =
  awaiting_booking_id :: bool
  awaiting_phone_for_cancel :: bool
  pending_bookings :: "booking_row list"
  session_phone :: "string option"

text \<open>The request body of \<open>POST /query/smart\<close> (class \<open>QueryRequest\<close>).\<close>

record QueryRequest =
  req_query :: string
  req_phone :: "string option"
  req_session_id :: "string option"

text \<open>The non-ASCII prefixes of the message literals, as the UTF-8 bytes of the source text.\<close>

definition INFO_MARK :: string where
  "INFO_MARK = [CHR 0xE2, CHR 0x80, CHR 0x9A, CHR 0xC3, CHR 0x91, CHR 0xCF, CHR 0x80,
                CHR 0xC3, CHR 0x94, CHR 0xE2, CHR 0x88, CHR 0x8F, CHR 0xC3, CHR 0xA8]"

definition CHECK_MARK :: string where
  "CHECK_MARK = [CHR 0xE2, CHR 0x80, CHR 0x9A, CHR 0xC3, CHR 0xBA, CHR 0xC3, CHR 0x96]"

definition ARROW :: string where
  "ARROW = [CHR 0xE2, CHR 0x80, CHR 0x9A, CHR 0xC3, CHR 0x9C, CHR 0xC3, CHR 0xAD]"

definition CROSS_MARK :: string where
  "CROSS_MARK = [CHR 0xE2, CHR 0x80, CHR 0x9A, CHR 0xC3, CHR 0xB9, CHR 0xC3, CHR 0xA5]"

definition PHONE_MARK :: string where
  "PHONE_MARK = [CHR 0xEF, CHR 0xA3, CHR 0xBF, CHR 0xC3, CHR 0xBC, CHR 0xC3, CHR 0xAC,
                 CHR 0xC2, CHR 0xB1]"

definition newline :: string where
  "newline = [CHR 0x0A]"

definition py_or :: "string option \<Rightarrow> string option \<Rightarrow> string option" where
  \<comment> \<open>\<open>x or y\<close> on values that are \<open>None\<close> or a string: \<open>None\<close> and \<open>""\<close> are falsy\<close>
  "py_or x y = (case x of None \<Rightarrow> y | Some s \<Rightarrow> if s = [] then y else x)"

definition or_empty :: "string option \<Rightarrow> string" where
  \<comment> \<open>\<open>x or ""\<close>\<close>
  "or_empty x = (case x of None \<Rightarrow> [] | Some s \<Rightarrow> s)"

definition normalize_phone :: "string \<Rightarrow> string" where
  \<comment> \<open>\<open>if phone.startswith("+88"): phone = phone[3:]\<close>\<close>
  "normalize_phone p = (if startswith p ''+88'' then drop 3 p else p)"

definition booking_line :: "booking_row \<Rightarrow> string" where
  \<comment> \<open>the line appended for one booking in the loop over \<open>active_bookings\<close>\<close>
  "booking_line b =
     from_district b @ '' '' @ ARROW @ '' '' @ to_district b @ '' on '' @ travel_date b @
     '' (ID: '' @ booking_id b @ '')'' @ newline"

definition cancelled_message :: "string \<Rightarrow> string" where
  "cancelled_message bid = CHECK_MARK @ '' Booking '' @ bid @ '' has been cancelled successfully.''"

definition no_active_message :: "string \<Rightarrow> string" where
  "no_active_message p = INFO_MARK @ '' No active bookings found for phone number '' @ p"

definition not_found_message :: "string \<Rightarrow> string" where
  "not_found_message bid = CROSS_MARK @ '' Booking ID '' @ bid @ '' not found. Please check again.''"

definition ask_phone_message :: string where
  "ask_phone_message = PHONE_MARK @ '' To cancel your booking, please provide your phone number.''"

definition multiple_message :: "booking_row list \<Rightarrow> string" where
  \<comment> \<open>the header, the loop \<open>for b in active_bookings: message += ...\<close>, the closing request\<close>
  "multiple_message active_bookings =
     foldl (\<lambda>message b. message @ booking_line b)
       (''You have multiple active bookings:'' @ newline) active_bookings
     @ newline @ ''Please provide the Booking ID you want to cancel.''"

definition new_session :: session where
  "new_session = \<lparr>awaiting_booking_id = False, awaiting_phone_for_cancel = False,
                   pending_bookings = [], session_phone = None\<rparr>"

text \<open>
  One turn of \<open>query_smart\<close> on the session's dictionary and the database, from
  \<open>query_text = request.query.strip()\<close> to the \<open>return\<close>: the reply, the dictionary and
  the database afterwards. \<open>get_answer\<close> is the answer engine, \<open>now\<close> the time read by
  \<open>cancel_booking\<close>. The source's local \<open>phone\<close> is \<open>ph\<close> here, its \<open>bookings\<close> is
  \<open>found\<close>.
\<close>

definition query_smart_turn ::
  "(string \<Rightarrow> string) \<Rightarrow> string \<Rightarrow> string \<Rightarrow> QueryRequest \<Rightarrow> session \<Rightarrow> database
     \<Rightarrow> string \<times> session \<times> database" where
  "query_smart_turn get_answer now session_id request session0 db0 =
     (let query_text = strip (req_query request);
          query_lower = lower query_text;
          db1 = save_chat_message session_id ''user'' (req_query request) (req_phone request) db0
      in
      if awaiting_phone_for_cancel session0 then
        (let ph = normalize_phone query_text;
             session1 = session0\<lparr>session_phone := Some ph, awaiting_phone_for_cancel := False\<rparr>;
             found = get_bookings_by_phone ph db1;
             active_bookings = filter (\<lambda>b. status b = ''active'') found
         in
         if active_bookings = [] then
           (let message = no_active_message ph
            in (message, session1,
                save_chat_message session_id ''assistant'' message (Some ph) db1))
         else if length active_bookings = 1 then
           (let booking_to_cancel = hd active_bookings;
                db2 = snd (cancel_booking (booking_id booking_to_cancel) now db1);
                message = cancelled_message (booking_id booking_to_cancel)
            in (message, session1,
                save_chat_message session_id ''assistant'' message (Some ph) db2))
         else
           (let session2 = session1\<lparr>awaiting_booking_id := True,
                                     pending_bookings := active_bookings\<rparr>;
                message = multiple_message active_bookings
            in (message, session2,
                save_chat_message session_id ''assistant'' message (Some ph) db1)))
      else if awaiting_booking_id session0 then
        (let bid = query_text
         in case find (\<lambda>b. booking_id b = bid) (pending_bookings session0) of
              Some booking \<Rightarrow>
                (let db2 = snd (cancel_booking bid now db1);
                     session1 = session0\<lparr>awaiting_booking_id := False, pending_bookings := []\<rparr>;
                     message = cancelled_message bid
                 in (message, session1,
                     save_chat_message session_id ''assistant'' message (session_phone session1) db2))
            | None \<Rightarrow>
                (let message = not_found_message bid
                 in (message, session0,
                     save_chat_message session_id ''assistant'' message (session_phone session0) db1)))
      else if list_ex (\<lambda>k. contains query_lower k) [''cancel'', ''cancellation''] then
        (let ph = strip (or_empty (py_or (req_phone request) (session_phone session0)))
         in
         if ph = [] then
           (let session1 = session0\<lparr>awaiting_phone_for_cancel := True\<rparr>;
                message = ask_phone_message
            in (message, session1, save_chat_message session_id ''assistant'' message None db1))
         else
           (let ph = normalize_phone ph;
                session1 = session0\<lparr>session_phone := Some ph\<rparr>;
                found = get_bookings_by_phone ph db1;
                active_bookings = filter (\<lambda>b. status b = ''active'') found
            in
            if active_bookings = [] then
              (let message = no_active_message ph
               in (message, session1,
                   save_chat_message session_id ''assistant'' message (Some ph) db1))
            else if length active_bookings = 1 then
              (let booking_to_cancel = hd active_bookings;
                   db2 = snd (cancel_booking (booking_id booking_to_cancel) now db1);
                   message = cancelled_message (booking_id booking_to_cancel)
               in (message, session1,
                   save_chat_message session_id ''assistant'' message (Some ph) db2))
            else
              (let session2 = session1\<lparr>awaiting_booking_id := True,
                                        pending_bookings := active_bookings\<rparr>;
                   message = multiple_message active_bookings
               in (message, session2,
                   save_chat_message session_id ''assistant'' message (Some ph) db1))))
      else
        (let answer = get_answer (req_query request)
         in (answer, session0,
             save_chat_message session_id ''assistant'' answer (session_phone session0) db1)))"

text \<open>The process state: the dictionary \<open>sessions\<close> and the database file.\<close>

record state =
  sessions :: "string \<rightharpoonup> session"
  store :: database

definition session_of :: "state \<Rightarrow> string \<Rightarrow> session" where
  \<comment> \<open>\<open>sessions[session_id]\<close> after \<open>if session_id not in sessions: sessions[session_id] = {...}\<close>\<close>
  "session_of st session_id = (case sessions st session_id of None \<Rightarrow> new_session | Some s \<Rightarrow> s)"

definition request_session_id :: "string \<Rightarrow> QueryRequest \<Rightarrow> string" where
  \<comment> \<open>\<open>request.session_id or str(uuid.uuid4())\<close>\<close>
  "request_session_id uuid4 request = or_empty (py_or (req_session_id request) (Some uuid4))"

definition query_smart ::
  "(string \<Rightarrow> string) \<Rightarrow> string \<Rightarrow> string \<Rightarrow> QueryRequest \<Rightarrow> state \<Rightarrow> (string \<times> string) \<times> state" where
  \<comment> \<open>\<open>uuid4\<close> is \<open>str(uuid.uuid4())\<close>; the result is the reply with the session identifier,
      and the state afterwards\<close>
  "query_smart get_answer uuid4 now request st =
     (let session_id = request_session_id uuid4 request;
          session0 = session_of st session_id
      in case query_smart_turn get_answer now session_id request session0 (store st) of
           (message, session1, db1) \<Rightarrow>
             ((message, session_id),
              \<lparr>sessions = (sessions st)(session_id \<mapsto> session1), store = db1\<rparr>))"

text \<open>
  The calls the process serves. An endpoint that raises leaves the state as it was.
\<close>

datatype event =
    Query string string QueryRequest      \<comment> \<open>\<open>POST /query/smart\<close>: uuid4, now, request\<close>
  | CreateBooking string nat BookingCreate  \<comment> \<open>\<open>POST /bookings\<close>: now, current_timestamp, body\<close>
  | DeleteBooking string string bool      \<comment> \<open>\<open>DELETE /bookings/{id}\<close>: now, id, permanent\<close>

fun step :: "bus_data \<Rightarrow> (string \<Rightarrow> string) \<Rightarrow> state \<Rightarrow> event \<Rightarrow> state" where
  "step data get_answer st (Query uuid4 now request) =
     snd (query_smart get_answer uuid4 now request st)"
| "step data get_answer st (CreateBooking now current_timestamp body) =
     (case create_booking_endpoint data now current_timestamp body (store st) of
        Inl e \<Rightarrow> st
      | Inr (saved, db1) \<Rightarrow> st\<lparr>store := db1\<rparr>)"
| "step data get_answer st (DeleteBooking now bid permanent) =
     (case delete_booking_endpoint now bid permanent (store st) of
        Inl e \<Rightarrow> st
      | Inr (message, db1) \<Rightarrow> st\<lparr>store := db1\<rparr>)"

definition run :: "bus_data \<Rightarrow> (string \<Rightarrow> string) \<Rightarrow> state \<Rightarrow> event list \<Rightarrow> state" where
  "run data get_answer st evs = foldl (step data get_answer) st evs"

definition initial_state :: "database \<Rightarrow> state" where
  \<comment> \<open>the process starts with no session, on whatever the database file holds\<close>
  "initial_state db0 = \<lparr>sessions = Map.empty, store = db0\<rparr>"

definition empty_database :: database where
  "empty_database = \<lparr>bookings = [], chat_history = [], deleted_bookings = []\<rparr>"


text \<open>
  The three steps that follow the choice of the phone, in \<open>query_smart\<close> twice (lines 249
  to 271 and 300 to 322), written once: the lookup, the filter on the status, and the
  branches on the number of active bookings.
\<close>

definition cancel_resolution ::
  "string \<Rightarrow> string \<Rightarrow> string \<Rightarrow> session \<Rightarrow> database \<Rightarrow> string \<times> session \<times> database" where
  "cancel_resolution now session_id ph s db =
     (case filter (\<lambda>b. status b = ''active'') (get_bookings_by_phone ph db) of
        [] \<Rightarrow>
          (no_active_message ph, s,
           save_chat_message session_id ''assistant'' (no_active_message ph) (Some ph) db)
      | [b] \<Rightarrow>
          (cancelled_message (booking_id b), s,
           save_chat_message session_id ''assistant'' (cancelled_message (booking_id b)) (Some ph)
             (snd (cancel_booking (booking_id b) now db)))
      | b # b' # bs \<Rightarrow>
          (multiple_message (b # b' # bs),
           s\<lparr>pending_bookings := b # b' # bs, awaiting_booking_id := True\<rparr>,
           save_chat_message session_id ''assistant'' (multiple_message (b # b' # bs)) (Some ph) db))"


section \<open>The specification's vocabulary\<close>

text \<open>
  The notions in which the specification states the rules of the router. None of them is
  defined through the store's operations or the router's: they speak of the table, of the
  request and of the session, with the string functions only.
\<close>

definition active_bookings_of :: "string \<Rightarrow> database \<Rightarrow> booking_row list" where
  \<comment> \<open>the active bookings of a phone: the rows of the table with that phone and the status
      \<open>active\<close>, in the order of the table\<close>
  "active_bookings_of ph db = filter (\<lambda>b. phone b = ph \<and> status b = ''active'') (bookings db)"

definition newest_first :: "booking_row list \<Rightarrow> booking_row list" where
  \<comment> \<open>rows by falling \<open>created_at\<close>, rows of one second in the order they had\<close>
  "newest_first rows = rev (sort_key created_at (rev rows))"

definition has_cancel_keyword :: "string \<Rightarrow> bool" where
  \<comment> \<open>case-insensitive substring match of the query text against "cancel" and "cancellation"\<close>
  "has_cancel_keyword query_text =
     (contains (lower query_text) ''cancel'' \<or> contains (lower query_text) ''cancellation'')"


definition without_prefix :: "string \<Rightarrow> string" where
  \<comment> \<open>a phone without a leading international prefix \<open>+88\<close>\<close>
  "without_prefix p = (if prefix ''+88'' p then drop 3 p else p)"

definition effective_phone :: "QueryRequest \<Rightarrow> session \<Rightarrow> string" where
  \<comment> \<open>the phone hint of the request, else the phone stored in the session, else the empty
      string; an empty hint counts as none\<close>
  "effective_phone request s =
     (case req_phone request of
        Some hint \<Rightarrow>
          if hint \<noteq> [] then hint
          else (case session_phone s of Some stored \<Rightarrow> stored | None \<Rightarrow> [])
      | None \<Rightarrow> (case session_phone s of Some stored \<Rightarrow> stored | None \<Rightarrow> []))"

definition resolution_phone :: "QueryRequest \<Rightarrow> session \<Rightarrow> string option" where
  \<comment> \<open>the phone with which a turn enters cancel-resolution, by rule 1 (the session awaits
      a phone: the query text) or by the trigger (idle session, keyword, effective phone not
      blank), in both without a leading \<open>+88\<close>; \<open>None\<close> when the turn does not enter it\<close>
  "resolution_phone request s =
     (if awaiting_phone_for_cancel s then Some (without_prefix (strip (req_query request)))
      else if awaiting_booking_id s then None
      else if has_cancel_keyword (strip (req_query request)) \<and>
              strip (effective_phone request s) \<noteq> []
        then Some (without_prefix (strip (effective_phone request s)))
      else None)"

definition session_inv :: "session \<Rightarrow> bool" where
  "session_inv s =
     (\<not> (awaiting_booking_id s \<and> awaiting_phone_for_cancel s) \<and>
      (pending_bookings s \<noteq> [] \<longleftrightarrow> awaiting_booking_id s) \<and>
      (pending_bookings s \<noteq> [] \<longrightarrow> 2 \<le> length (pending_bookings s)) \<and>
      (\<forall>b\<in>set (pending_bookings s). status b = ''active''))"


section \<open>Example data\<close>

definition demo_data :: bus_data where
  "demo_data =
     \<lparr>districts =
        [\<lparr>d_name = ''Dhaka'', d_dropping_points = [\<lparr>dp_name = ''Gabtoli'', dp_price = 500\<rparr>]\<rparr>,
         \<lparr>d_name = ''Sylhet'', d_dropping_points = [\<lparr>dp_name = ''Amberkhana'', dp_price = 700\<rparr>]\<rparr>],
      bus_providers =
        [\<lparr>p_name = ''Hanif'', p_coverage_districts = [''Dhaka'', ''Sylhet'']\<rparr>]\<rparr>"

definition demo_body :: "string \<Rightarrow> BookingCreate" where
  \<comment> \<open>a booking of Karim, phone 01711000000, Dhaka to Sylhet, with the given travel date\<close>
  "demo_body date =
     \<lparr>bc_name = ''Karim'', bc_phone = ''01711000000'', bc_bus_provider = ''Hanif'',
      bc_from_district = ''Dhaka'', bc_to_district = ''Sylhet'',
      bc_dropping_point = ''Amberkhana'', bc_travel_date = date, bc_num_passengers = 2\<rparr>"

definition demo_saved :: "string \<Rightarrow> string \<Rightarrow> string \<Rightarrow> booking" where
  \<comment> \<open>the dictionary made from \<open>demo_body\<close>: identifier, travel date, booking time\<close>
  "demo_saved bid date now =
     \<lparr>booking_id = bid, name = ''Karim'', phone = ''01711000000'', bus_provider = ''Hanif'',
      from_district = ''Dhaka'', to_district = ''Sylhet'', dropping_point = ''Amberkhana'',
      travel_date = date, num_passengers = 2, fare = 700, total_amount = 1400,
      booking_date = now, status = ''active''\<rparr>"

definition demo_row :: "string \<Rightarrow> string \<Rightarrow> string \<Rightarrow> nat \<Rightarrow> booking_row" where
  \<comment> \<open>the row that \<open>demo_body\<close> is stored as: identifier, travel date, booking time, second
      of insertion\<close>
  "demo_row bid date now created =
     \<lparr>booking_id = bid, name = ''Karim'', phone = ''01711000000'', bus_provider = ''Hanif'',
      from_district = ''Dhaka'', to_district = ''Sylhet'', dropping_point = ''Amberkhana'',
      travel_date = date, num_passengers = 2, fare = 700, total_amount = 1400,
      booking_date = now, status = ''active'', cancelled_date = None, created_at = created\<rparr>"

definition demo_answer :: "string \<Rightarrow> string" where
  "demo_answer q = ''Hanif runs from Dhaka to Sylhet.''"

definition demo_request :: "string \<Rightarrow> QueryRequest" where
  \<comment> \<open>a query of session S1 with no phone hint\<close>
  "demo_request q = \<lparr>req_query = q, req_phone = None, req_session_id = Some ''S1''\<rparr>"

definition BK1 :: booking_row where
  "BK1 = demo_row ''BK00001'' ''2026-01-10'' ''t1'' 100"

definition BK2 :: booking_row where
  "BK2 = demo_row ''BK00002'' ''2026-01-11'' ''t2'' 160"

definition demo_db :: database where
  \<comment> \<open>two active bookings of the same phone, the second made a minute after the first\<close>
  "demo_db = empty_database\<lparr>bookings := [BK1, BK2]\<rparr>"

definition BK2s :: booking_row where
  \<comment> \<open>the second booking, had it been made in the second of the first\<close>
  "BK2s = demo_row ''BK00002'' ''2026-01-11'' ''t2'' 100"

definition same_second_db :: database where
  \<comment> \<open>two active bookings of the same phone, made in the same second\<close>
  "same_second_db = empty_database\<lparr>bookings := [BK1, BK2s]\<rparr>"

definition padded_phone :: string where
  \<comment> \<open>a phone between a no-break space (U+00A0) and a line feed\<close>
  "padded_phone = [CHR 0xC2, CHR 0xA0] @ ''+8801711000000'' @ [CHR 0x0A]"


definition single_db :: database where
  \<comment> \<open>one cancelled and one active booking of the same phone\<close>
  "single_db = empty_database\<lparr>bookings :=
     [BK1, BK2\<lparr>status := ''cancelled'', cancelled_date := Some ''t0''\<rparr>]\<rparr>"

definition first_query :: event where
  \<comment> \<open>session S1 asks to cancel, with no phone\<close>
  "first_query = Query ''u1'' ''t3'' (demo_request ''I want to cancel my ticket'')"

definition single_state :: state where
  \<comment> \<open>session S1 has asked to cancel and is asked for its phone; one booking is active\<close>
  "single_state = run demo_data demo_answer (initial_state single_db) [first_query]"

definition demo_state1 :: state where
  \<comment> \<open>session S1 has asked to cancel and is asked for its phone\<close>
  "demo_state1 = run demo_data demo_answer (initial_state demo_db) [first_query]"

definition demo_state2 :: state where
  \<comment> \<open>session S1 has given its phone and is offered its two bookings\<close>
  "demo_state2 = run demo_data demo_answer (initial_state demo_db)
     [first_query, Query ''u2'' ''t4'' (demo_request ''01711000000'')]"

definition demo_state3 :: state where
  \<comment> \<open>session S1 has chosen BK00002\<close>
  "demo_state3 = run demo_data demo_answer (initial_state demo_db)
     [first_query, Query ''u2'' ''t4'' (demo_request ''01711000000''),
      Query ''u3'' ''t5'' (demo_request ''BK00002'')]"

definition stale_state :: state where
  \<comment> \<open>session S1 is offered its two bookings; then BK00002 is deleted permanently\<close>
  "stale_state = run demo_data demo_answer (initial_state demo_db)
     [first_query, Query ''u2'' ''t4'' (demo_request ''01711000000''),
      DeleteBooking ''t5'' ''BK00002'' True]"

definition rahim_body :: BookingCreate where
  \<comment> \<open>a booking of Rahim, phone 01811000000\<close>
  "rahim_body =
     \<lparr>bc_name = ''Rahim'', bc_phone = ''01811000000'', bc_bus_provider = ''Hanif'',
      bc_from_district = ''Dhaka'', bc_to_district = ''Sylhet'',
      bc_dropping_point = ''Amberkhana'', bc_travel_date = ''2026-02-01'', bc_num_passengers = 1\<rparr>"

definition rahim_row :: booking_row where
  \<comment> \<open>the row that \<open>rahim_body\<close> is stored as at the time \<open>t6\<close>, in the second 300, when
      the table has one row\<close>
  "rahim_row =
     \<lparr>booking_id = ''BK00002'', name = ''Rahim'', phone = ''01811000000'', bus_provider = ''Hanif'',
      from_district = ''Dhaka'', to_district = ''Sylhet'', dropping_point = ''Amberkhana'',
      travel_date = ''2026-02-01'', num_passengers = 1, fare = 700, total_amount = 700,
      booking_date = ''t6'', status = ''active'', cancelled_date = None, created_at = 300\<rparr>"

definition reissued_state :: state where
  \<comment> \<open>session S1 is offered its two bookings; BK00002 is deleted permanently; Rahim
      then books and is given the identifier BK00002\<close>
  "reissued_state = run demo_data demo_answer (initial_state demo_db)
     [first_query, Query ''u2'' ''t4'' (demo_request ''01711000000''),
      DeleteBooking ''t5'' ''BK00002'' True,
      CreateBooking ''t6'' 300 rahim_body]"

definition demo_awaiting_phone :: session where
  "demo_awaiting_phone = new_session\<lparr>awaiting_phone_for_cancel := True\<rparr>"

definition demo_awaiting_choice :: session where
  "demo_awaiting_choice =
     \<lparr>awaiting_booking_id = True, awaiting_phone_for_cancel = False,
      pending_bookings = [BK2, BK1], session_phone = Some ''01711000000''\<rparr>"

definition demo_idle :: session where
  "demo_idle =
     \<lparr>awaiting_booking_id = False, awaiting_phone_for_cancel = False,
      pending_bookings = [], session_phone = Some ''01711000000''\<rparr>"

definition demo_hint_request :: QueryRequest where
  \<comment> \<open>a first query, with a phone hint and no session identifier\<close>
  "demo_hint_request =
     \<lparr>req_query = ''Please CANCEL my booking'', req_phone = Some ''+8801711000000'',
      req_session_id = None\<rparr>"

definition clash_state :: state where
  \<comment> \<open>two bookings of one phone, made in the same second; the travel date of the first is
      the text BK00002\<close>
  "clash_state = run demo_data demo_answer (initial_state empty_database)
     [CreateBooking ''t1'' 100 (demo_body ''BK00002''),
      CreateBooking ''t2'' 100 (demo_body ''2026-01-11'')]"


section \<open>What \<open>strip\<close> returns\<close>

lemma lstrip_leading: "leading_space (lstrip s) = 0"
  by (induction s rule: lstrip.induct) (subst lstrip.simps, simp)

lemma rstrip_trailing: "trailing_space (rstrip s) = 0"
  by (induction s rule: rstrip.induct) (subst rstrip.simps, simp)

lemma leading_space_take: "leading_space s = 0 \<Longrightarrow> leading_space (take n s) = 0"
proof -
  assume a: "leading_space s = 0"
  have ne: "\<forall>w\<in>set whitespace. w \<noteq> []"
    by (simp add: whitespace_def)
  have "\<not> prefix w s" if "w \<in> set whitespace" for w
  proof
    assume "prefix w s"
    with that obtain v where "find (\<lambda>w. prefix w s) whitespace = Some v"
      by (cases "find (\<lambda>w. prefix w s) whitespace") (auto simp: find_None_iff)
    moreover from this have "v \<in> set whitespace" by (auto simp: find_Some_iff)
    ultimately show False using a ne by (auto simp: leading_space_def)
  qed
  then have "\<not> prefix w (take n s)" if "w \<in> set whitespace" for w
    using that by (meson prefix_order.trans take_is_prefix)
  then have "find (\<lambda>w. prefix w (take n s)) whitespace = None"
    by (simp add: find_None_iff)
  then show ?thesis by (simp add: leading_space_def)
qed

lemma rstrip_leading: "leading_space s = 0 \<Longrightarrow> leading_space (rstrip s) = 0"
  by (induction s rule: rstrip.induct) (subst rstrip.simps, simp add: leading_space_take)

lemma strip_unpadded: "leading_space (strip s) = 0 \<and> trailing_space (strip s) = 0"
  by (simp add: strip_def rstrip_trailing rstrip_leading lstrip_leading)

lemma strip_id: "leading_space s = 0 \<Longrightarrow> trailing_space s = 0 \<Longrightarrow> strip s = s"
  by (simp add: strip_def lstrip.simps rstrip.simps)

lemma lstrip_suffix: "suffix (lstrip s) s"
  by (induction s rule: lstrip.induct) (subst lstrip.simps, auto intro: suffix_order.trans suffix_drop)

lemma rstrip_prefix: "prefix (rstrip s) s"
  by (induction s rule: rstrip.induct) (subst rstrip.simps, auto intro: prefix_order.trans take_is_prefix)

lemma strip_sublist: "sublist (strip s) s"
  unfolding strip_def
  by (meson lstrip_suffix rstrip_prefix prefix_imp_sublist suffix_imp_sublist sublist_order.order.trans)


section \<open>Evaluation on the example data\<close>

lemma format_05d_1: "format_05d (Suc 0) = ''00001''"
  by code_simp

lemma format_05d_2: "format_05d (Suc (Suc 0)) = ''00002''"
  by code_simp

lemma strip_Nil [simp]: "strip [] = []"
  by code_simp

lemma demo_strip_phone: "strip ''01711000000'' = ''01711000000''"
  by code_simp


lemma demo_strip_id: "strip ''BK00002'' = ''BK00002''"
  by code_simp


lemma demo_strip_cancel: "strip ''I want to cancel my ticket'' = ''I want to cancel my ticket''"
  by code_simp


lemma demo_strip_other_phone: "strip ''01811000000'' = ''01811000000''"
  by code_simp

lemmas string_eval = lower_def lower_char_def contains_def startswith_def sublist_Cons_right

lemmas store_eval = create_booking_endpoint_def create_booking_def validate_route_def get_fare_def
  generate_booking_id_def delete_booking_endpoint_def delete_booking_permanently_def
  cancel_booking_def cancel_row_def get_bookings_by_phone_def save_chat_message_def Let_def

lemmas demo_eval = demo_data_def demo_body_def demo_row_def demo_saved_def empty_database_def

lemma demo_body_valid: "BookingCreate_valid (demo_body d)"
  by (simp add: BookingCreate_valid_def demo_body_def py_len_def)

lemma create_first:
  "create_booking_endpoint demo_data t1 c1 (demo_body d) empty_database =
     Inr (demo_saved ''BK00001'' d t1, empty_database\<lparr>bookings := [demo_row ''BK00001'' d t1 c1]\<rparr>)"
  by (simp add: store_eval demo_eval string_eval format_05d_1 demo_strip_phone)

lemma create_second:
  "create_booking_endpoint demo_data t2 c2 (demo_body d2)
     (empty_database\<lparr>bookings := [demo_row ''BK00001'' d1 t1 c1]\<rparr>) =
   Inr (demo_saved ''BK00002'' d2 t2,
        empty_database\<lparr>bookings := [demo_row ''BK00001'' d1 t1 c1, demo_row ''BK00002'' d2 t2 c2]\<rparr>)"
  by (simp add: store_eval demo_eval string_eval format_05d_2 demo_strip_phone)

lemma delete_first:
  "delete_booking_endpoint t3 ''BK00001'' True
     (empty_database\<lparr>bookings := [demo_row ''BK00001'' d1 t1 c1, demo_row ''BK00002'' d2 t2 c2]\<rparr>) =
   Inr (''Booking BK00001 deleted permanently.'',
        empty_database\<lparr>bookings := [demo_row ''BK00002'' d2 t2 c2],
          deleted_bookings := [(''BK00001'', demo_row ''BK00001'' d1 t1 c1, ''01711000000'')]\<rparr>)"
  by (simp add: store_eval demo_eval)

lemma run_two_creates:
  "run demo_data demo_answer (initial_state empty_database)
     [CreateBooking t1 c1 (demo_body d1), CreateBooking t2 c2 (demo_body d2)] =
   \<lparr>sessions = Map.empty,
    store = empty_database\<lparr>bookings := [demo_row ''BK00001'' d1 t1 c1, demo_row ''BK00002'' d2 t2 c2]\<rparr>\<rparr>"
  by (simp add: run_def initial_state_def create_first create_second)


section \<open>The booking store\<close>

text \<open>
  C1. Booking identifiers are to be unique: \<open>generate_booking_id\<close> should return an
  identifier that no booking in the store has. It does not after a permanent deletion:
  the identifier is made from the number of rows. After two bookings are created and the
  first is deleted permanently, \<open>generate_booking_id\<close> returns \<open>BK00002\<close>, the identifier of
  the booking that is still in the store, and the next \<open>POST /bookings\<close> of a valid body
  fails on the table's \<open>UNIQUE\<close> constraint.
\<close>

theorem generate_booking_id_reuses_identifier:
  "generate_booking_id (store (run demo_data demo_answer (initial_state empty_database)
      [CreateBooking ''t1'' 100 (demo_body ''2026-01-10''),
       CreateBooking ''t2'' 160 (demo_body ''2026-01-11''),
       DeleteBooking ''t3'' ''BK00001'' True])) = ''BK00002''
   \<and> ''BK00002'' \<in> set (map booking_id (bookings (store
        (run demo_data demo_answer (initial_state empty_database)
          [CreateBooking ''t1'' 100 (demo_body ''2026-01-10''),
           CreateBooking ''t2'' 160 (demo_body ''2026-01-11''),
           DeleteBooking ''t3'' ''BK00001'' True]))))
   \<and> BookingCreate_valid (demo_body ''2026-01-12'')
   \<and> create_booking_endpoint demo_data ''t4'' 220 (demo_body ''2026-01-12'')
        (store (run demo_data demo_answer (initial_state empty_database)
          [CreateBooking ''t1'' 100 (demo_body ''2026-01-10''),
           CreateBooking ''t2'' 160 (demo_body ''2026-01-11''),
           DeleteBooking ''t3'' ''BK00001'' True])) = Inl IntegrityError"
proof -
  have st: "store (run demo_data demo_answer (initial_state empty_database)
      [CreateBooking ''t1'' 100 (demo_body ''2026-01-10''),
       CreateBooking ''t2'' 160 (demo_body ''2026-01-11''),
       DeleteBooking ''t3'' ''BK00001'' True]) =
    empty_database\<lparr>bookings := [demo_row ''BK00002'' ''2026-01-11'' ''t2'' 160],
      deleted_bookings := [(''BK00001'', demo_row ''BK00001'' ''2026-01-10'' ''t1'' 100, ''01711000000'')]\<rparr>"
    by (simp add: run_def initial_state_def create_first create_second delete_first)
  have "BookingCreate_valid (demo_body ''2026-01-12'')"
    by (rule demo_body_valid)
  then show ?thesis
    unfolding st by (simp add: store_eval demo_eval string_eval format_05d_2 demo_strip_phone)
qed

lemma cancel_row_other:
  "\<not> (booking_id b = bid \<and> status b = ''active'') \<Longrightarrow> cancel_row bid now b = b"
  by (auto simp: cancel_row_def)

lemma cancel_row_hit:
  "booking_id b = bid \<Longrightarrow> status b = ''active'' \<Longrightarrow>
   cancel_row bid now b = b\<lparr>status := ''cancelled'', cancelled_date := Some now\<rparr>"
  by (simp add: cancel_row_def)

lemma map_cancel_row_id:
  "\<forall>b\<in>set bs. \<not> (booking_id b = bid \<and> status b = ''active'') \<Longrightarrow>
   map (cancel_row bid now) bs = bs"
  by (induction bs) (auto simp: cancel_row_def)

lemma map_cancel_row_absent:
  "bid \<notin> set (map booking_id bs) \<Longrightarrow> map (cancel_row bid now) bs = bs"
  by (rule map_cancel_row_id) auto

lemma map_cancel_row_unique:
  "distinct (map booking_id bs) \<Longrightarrow> i < length bs \<Longrightarrow> booking_id (bs ! i) = bid \<Longrightarrow>
   status (bs ! i) = ''active'' \<Longrightarrow>
   map (cancel_row bid now) bs =
     bs[i := (bs ! i)\<lparr>status := ''cancelled'', cancelled_date := Some now\<rparr>]"
proof (induction bs arbitrary: i)
  case Nil
  then show ?case by simp
next
  case (Cons b bs)
  show ?case
  proof (cases i)
    case 0
    with Cons.prems have "bid \<notin> set (map booking_id bs)" by auto
    then have "map (cancel_row bid now) bs = bs" by (rule map_cancel_row_absent)
    with 0 Cons.prems show ?thesis by (simp add: cancel_row_hit)
  next
    case (Suc j)
    with Cons.prems have j: "j < length bs" "booking_id (bs ! j) = bid" "status (bs ! j) = ''active''"
      and d: "distinct (map booking_id bs)" by auto
    from j(1,2) have "bid \<in> set (map booking_id bs)" by (metis length_map nth_map nth_mem)
    with Cons.prems(1) have "booking_id b \<noteq> bid" by auto
    with Cons.IH[OF d j] Suc show ?thesis by (simp add: cancel_row_other)
  qed
qed

text \<open>
  C8. On a table whose identifiers are unique (the \<open>UNIQUE\<close> constraint),
  \<open>cancel_booking\<close> returns true if and only if a booking with the identifier exists with
  status \<open>active\<close>; then exactly that row changes, to status \<open>cancelled\<close> with the
  cancellation time set; otherwise the database is left as it was. The only change of a
  status is from \<open>active\<close> to \<open>cancelled\<close>.
\<close>

theorem cancel_booking_active_only:
  assumes "distinct (map booking_id (bookings db))"
  shows "(fst (cancel_booking bid now db) \<longleftrightarrow>
            (\<exists>b\<in>set (bookings db). booking_id b = bid \<and> status b = ''active''))
       \<and> (fst (cancel_booking bid now db) \<longrightarrow>
            (\<exists>i<length (bookings db).
               booking_id (bookings db ! i) = bid \<and> status (bookings db ! i) = ''active'' \<and>
               snd (cancel_booking bid now db) =
                 db\<lparr>bookings := (bookings db)[i := (bookings db ! i)\<lparr>status := ''cancelled'',
                                                    cancelled_date := Some now\<rparr>]\<rparr>))
       \<and> (\<not> fst (cancel_booking bid now db) \<longrightarrow> snd (cancel_booking bid now db) = db)
       \<and> length (bookings (snd (cancel_booking bid now db))) = length (bookings db)
       \<and> (\<forall>i<length (bookings db).
            status (bookings (snd (cancel_booking bid now db)) ! i) \<noteq> status (bookings db ! i) \<longrightarrow>
              status (bookings db ! i) = ''active'' \<and>
              status (bookings (snd (cancel_booking bid now db)) ! i) = ''cancelled'')"
proof -
  let ?P = "\<lambda>b. booking_id b = bid \<and> status b = ''active''"
  have ret: "fst (cancel_booking bid now db) \<longleftrightarrow> (\<exists>b\<in>set (bookings db). ?P b)"
    by (auto simp: cancel_booking_def Let_def filter_empty_conv)
  have upd: "\<exists>i<length (bookings db). ?P (bookings db ! i) \<and>
               snd (cancel_booking bid now db) =
                 db\<lparr>bookings := (bookings db)[i := (bookings db ! i)\<lparr>status := ''cancelled'',
                                                    cancelled_date := Some now\<rparr>]\<rparr>"
    if "fst (cancel_booking bid now db)"
  proof -
    from that ret obtain b where "b \<in> set (bookings db)" "?P b" by blast
    then obtain i where i: "i < length (bookings db)" "?P (bookings db ! i)"
      by (metis in_set_conv_nth)
    with assms have "map (cancel_row bid now) (bookings db) =
        (bookings db)[i := (bookings db ! i)\<lparr>status := ''cancelled'', cancelled_date := Some now\<rparr>]"
      by (intro map_cancel_row_unique) auto
    with i show ?thesis by (auto simp: cancel_booking_def Let_def)
  qed
  have same: "snd (cancel_booking bid now db) = db" if "\<not> fst (cancel_booking bid now db)"
  proof -
    from that ret have "\<forall>b\<in>set (bookings db). \<not> ?P b" by blast
    then have "map (cancel_row bid now) (bookings db) = bookings db" by (rule map_cancel_row_id)
    then show ?thesis by (simp add: cancel_booking_def Let_def)
  qed
  have len: "length (bookings (snd (cancel_booking bid now db))) = length (bookings db)"
    by (simp add: cancel_booking_def Let_def)
  have trans: "\<forall>i<length (bookings db).
            status (bookings (snd (cancel_booking bid now db)) ! i) \<noteq> status (bookings db ! i) \<longrightarrow>
              status (bookings db ! i) = ''active'' \<and>
              status (bookings (snd (cancel_booking bid now db)) ! i) = ''cancelled''"
    by (auto simp: cancel_booking_def Let_def cancel_row_def)
  from ret upd same len trans show ?thesis by blast
qed

theorem cancel_booking_active_only_witness:
  "distinct (map booking_id (bookings demo_db))
   \<and> fst (cancel_booking ''BK00002'' ''t3'' demo_db)
   \<and> \<not> fst (cancel_booking ''BK00009'' ''t3'' demo_db)
   \<and> snd (cancel_booking ''BK00009'' ''t3'' demo_db) = demo_db"
proof -
  have d: "distinct (map booking_id (bookings demo_db))"
    by (simp add: demo_db_def BK1_def BK2_def demo_eval)
  have hit: "\<exists>b\<in>set (bookings demo_db). booking_id b = ''BK00002'' \<and> status b = ''active''"
    by (simp add: demo_db_def BK1_def BK2_def demo_eval)
  have miss: "\<not> (\<exists>b\<in>set (bookings demo_db). booking_id b = ''BK00009'' \<and> status b = ''active'')"
    by (simp add: demo_db_def BK1_def BK2_def demo_eval)
  from cancel_booking_active_only [OF d, of "''BK00002''" "''t3''"] hit
  have 1: "fst (cancel_booking ''BK00002'' ''t3'' demo_db)" by blast
  from cancel_booking_active_only [OF d, of "''BK00009''" "''t3''"] miss
  have 2: "\<not> fst (cancel_booking ''BK00009'' ''t3'' demo_db)"
    and 3: "snd (cancel_booking ''BK00009'' ''t3'' demo_db) = demo_db" by blast+
  from d 1 2 3 show ?thesis by blast
qed


section \<open>Phone normalisation\<close>




section \<open>The lookup of a phone's bookings\<close>

lemma newest_first_length [simp]: "length (newest_first rows) = length rows"
  by (simp add: newest_first_def)

lemma newest_first_set [simp]: "set (newest_first rows) = set rows"
  by (simp add: newest_first_def)

lemma newest_first_Nil: "newest_first rows = [] \<longleftrightarrow> rows = []"
  using newest_first_length [of rows] by (metis length_0_conv)

lemma newest_first_single [simp]: "newest_first [b] = [b]"
  by (simp add: newest_first_def)


lemma newest_first_stable:
  "filter (\<lambda>b. created_at b = t) (newest_first rows) = filter (\<lambda>b. created_at b = t) rows"
proof -
  have "filter (\<lambda>b. created_at b = t) (newest_first rows) =
      rev (filter (\<lambda>b. created_at b = t) (sort_key created_at (rev rows)))"
    by (simp add: newest_first_def rev_filter)
  also have "\<dots> = rev (filter (\<lambda>b. created_at b = t) (rev rows))"
    by (simp add: sort_key_stable)
  also have "\<dots> = filter (\<lambda>b. created_at b = t) rows"
    by (simp add: rev_filter)
  finally show ?thesis .
qed


lemma filter_newest_first: "filter P (newest_first rows) = newest_first (filter P rows)"
proof -
  have "filter P (newest_first rows) = rev (filter P (sort_key created_at (rev rows)))"
    by (simp add: newest_first_def rev_filter)
  also have "\<dots> = rev (sort_key created_at (filter P (rev rows)))"
    by (simp add: filter_sort)
  also have "\<dots> = newest_first (filter P rows)"
    by (simp add: newest_first_def rev_filter)
  finally show ?thesis .
qed

lemma lookup_active:
  "filter (\<lambda>b. status b = ''active'') (get_bookings_by_phone ph db) =
     newest_first (active_bookings_of ph db)"
proof -
  have "get_bookings_by_phone ph db = newest_first (filter (\<lambda>b. phone b = ph) (bookings db))"
    by (simp add: get_bookings_by_phone_def newest_first_def)
  then show ?thesis
    by (simp add: filter_newest_first active_bookings_of_def conj_commute)
qed

lemma active_bookings_of_chat [simp]:
  "active_bookings_of ph (save_chat_message sid role m p db) = active_bookings_of ph db"
  by (simp add: active_bookings_of_def save_chat_message_def)

lemma active_bookings_of_status: "b \<in> set (active_bookings_of ph db) \<Longrightarrow> status b = ''active''"
  by (simp add: active_bookings_of_def)

lemma active_bookings_of_phone: "b \<in> set (active_bookings_of ph db) \<Longrightarrow> phone b = ph"
  by (simp add: active_bookings_of_def)

lemma active_bookings_of_member:
  "b \<in> set (active_bookings_of ph db) \<Longrightarrow> b \<in> set (bookings db)"
  by (simp add: active_bookings_of_def)



section \<open>One turn of the router, branch by branch\<close>

lemma cancel_resolution_cases:
  "cancel_resolution now sid ph s db =
     (let active_bookings = newest_first (active_bookings_of ph db) in
      if active_bookings = [] then
        (no_active_message ph, s, save_chat_message sid ''assistant'' (no_active_message ph) (Some ph) db)
      else if length active_bookings = 1 then
        (cancelled_message (booking_id (hd active_bookings)), s,
         save_chat_message sid ''assistant'' (cancelled_message (booking_id (hd active_bookings))) (Some ph)
           (snd (cancel_booking (booking_id (hd active_bookings)) now db)))
      else
        (multiple_message active_bookings,
         s\<lparr>pending_bookings := active_bookings, awaiting_booking_id := True\<rparr>,
         save_chat_message sid ''assistant'' (multiple_message active_bookings) (Some ph) db))"
  unfolding cancel_resolution_def lookup_active Let_def
  by (cases "newest_first (active_bookings_of ph db)" rule: list.exhaust
      ; simp split: list.splits)

lemma turn_awaiting_phone:
  assumes "awaiting_phone_for_cancel s"
  shows "query_smart_turn ga now sid r s db =
     cancel_resolution now sid (normalize_phone (strip (req_query r)))
       (s\<lparr>session_phone := Some (normalize_phone (strip (req_query r))), awaiting_phone_for_cancel := False\<rparr>)
       (save_chat_message sid ''user'' (req_query r) (req_phone r) db)"
  using assms
  by (simp add: query_smart_turn_def cancel_resolution_cases Let_def lookup_active)

lemma turn_trigger:
  assumes "\<not> awaiting_phone_for_cancel s" "\<not> awaiting_booking_id s"
    "has_cancel_keyword (strip (req_query r))"
    "strip (or_empty (py_or (req_phone r) (session_phone s))) \<noteq> []"
  shows "query_smart_turn ga now sid r s db =
     cancel_resolution now sid (normalize_phone (strip (or_empty (py_or (req_phone r) (session_phone s)))))
       (s\<lparr>session_phone := Some (normalize_phone (strip (or_empty (py_or (req_phone r) (session_phone s)))))\<rparr>)
       (save_chat_message sid ''user'' (req_query r) (req_phone r) db)"
  using assms
  by (simp add: query_smart_turn_def cancel_resolution_cases Let_def lookup_active has_cancel_keyword_def)

lemma normalize_phone_eq: "normalize_phone p = without_prefix p"
  by (simp add: normalize_phone_def without_prefix_def startswith_def)

lemma effective_phone_eq:
  "or_empty (py_or (req_phone r) (session_phone s)) = effective_phone r s"
  by (simp add: or_empty_def py_or_def effective_phone_def split: option.splits)

lemma turn_resolution:
  assumes "resolution_phone r s = Some ph"
  shows "query_smart_turn ga now sid r s db =
     cancel_resolution now sid ph (s\<lparr>session_phone := Some ph, awaiting_phone_for_cancel := False\<rparr>)
       (save_chat_message sid ''user'' (req_query r) (req_phone r) db)"
proof (cases "awaiting_phone_for_cancel s")
  case True
  with assms have "ph = normalize_phone (strip (req_query r))"
    by (simp add: resolution_phone_def normalize_phone_eq)
  with True show ?thesis by (simp add: turn_awaiting_phone)
next
  case False
  with assms have b: "\<not> awaiting_booking_id s" and k: "has_cancel_keyword (strip (req_query r))"
    and e: "strip (or_empty (py_or (req_phone r) (session_phone s))) \<noteq> []"
    and p: "ph = normalize_phone (strip (or_empty (py_or (req_phone r) (session_phone s))))"
    by (auto simp: resolution_phone_def normalize_phone_eq effective_phone_eq split: if_splits)
  from False have "s\<lparr>session_phone := Some ph, awaiting_phone_for_cancel := False\<rparr> = s\<lparr>session_phone := Some ph\<rparr>"
    by simp
  with turn_trigger[OF False b k e] p show ?thesis by simp
qed

lemma turn_choice_found:
  assumes "\<not> awaiting_phone_for_cancel s" "awaiting_booking_id s"
    "strip (req_query r) \<in> set (map booking_id (pending_bookings s))"
  shows "query_smart_turn ga now sid r s db =
    (cancelled_message (strip (req_query r)),
     s\<lparr>awaiting_booking_id := False, pending_bookings := []\<rparr>,
     save_chat_message sid ''assistant'' (cancelled_message (strip (req_query r))) (session_phone s)
       (snd (cancel_booking (strip (req_query r)) now (save_chat_message sid ''user'' (req_query r) (req_phone r) db))))"
proof -
  from assms(3) obtain b where "find (\<lambda>b. booking_id b = strip (req_query r)) (pending_bookings s) = Some b"
    by (cases "find (\<lambda>b. booking_id b = strip (req_query r)) (pending_bookings s)") (auto simp: find_None_iff)
  with assms(1,2) show ?thesis by (simp add: query_smart_turn_def Let_def)
qed

lemma turn_choice_not_found:
  assumes "\<not> awaiting_phone_for_cancel s" "awaiting_booking_id s"
    "strip (req_query r) \<notin> set (map booking_id (pending_bookings s))"
  shows "query_smart_turn ga now sid r s db =
    (not_found_message (strip (req_query r)), s,
     save_chat_message sid ''assistant'' (not_found_message (strip (req_query r))) (session_phone s)
       (save_chat_message sid ''user'' (req_query r) (req_phone r) db))"
proof -
  from assms(3) have "find (\<lambda>b. booking_id b = strip (req_query r)) (pending_bookings s) = None"
    by (force simp: find_None_iff)
  with assms(1,2) show ?thesis by (simp add: query_smart_turn_def Let_def)
qed

lemma turn_ask_phone:
  assumes "\<not> awaiting_phone_for_cancel s" "\<not> awaiting_booking_id s"
    "has_cancel_keyword (strip (req_query r))"
    "strip (or_empty (py_or (req_phone r) (session_phone s))) = []"
  shows "query_smart_turn ga now sid r s db =
    (ask_phone_message, s\<lparr>awaiting_phone_for_cancel := True\<rparr>,
     save_chat_message sid ''assistant'' ask_phone_message None
       (save_chat_message sid ''user'' (req_query r) (req_phone r) db))"
  using assms by (simp add: query_smart_turn_def Let_def has_cancel_keyword_def)

lemma turn_answer:
  assumes "\<not> awaiting_phone_for_cancel s" "\<not> awaiting_booking_id s"
    "\<not> has_cancel_keyword (strip (req_query r))"
  shows "query_smart_turn ga now sid r s db =
    (ga (req_query r), s,
     save_chat_message sid ''assistant'' (ga (req_query r)) (session_phone s)
       (save_chat_message sid ''user'' (req_query r) (req_phone r) db))"
  using assms by (simp add: query_smart_turn_def Let_def has_cancel_keyword_def)


section \<open>The router on the process state, and the session invariant\<close>

lemma query_smart_eq:
  "query_smart ga uuid4 now r st =
     ((fst (query_smart_turn ga now (request_session_id uuid4 r) r
              (session_of st (request_session_id uuid4 r)) (store st)),
       request_session_id uuid4 r),
      \<lparr>sessions = (sessions st)(request_session_id uuid4 r \<mapsto>
          fst (snd (query_smart_turn ga now (request_session_id uuid4 r) r
              (session_of st (request_session_id uuid4 r)) (store st)))),
       store = snd (snd (query_smart_turn ga now (request_session_id uuid4 r) r
              (session_of st (request_session_id uuid4 r)) (store st)))\<rparr>)"
  by (simp add: query_smart_def Let_def split: prod.splits)

lemma session_of_after:
  "session_of (snd (query_smart ga uuid4 now r st)) (request_session_id uuid4 r) =
   fst (snd (query_smart_turn ga now (request_session_id uuid4 r) r
              (session_of st (request_session_id uuid4 r)) (store st)))"
  by (simp add: query_smart_eq session_of_def)

lemma store_after:
  "store (snd (query_smart ga uuid4 now r st)) =
   snd (snd (query_smart_turn ga now (request_session_id uuid4 r) r
              (session_of st (request_session_id uuid4 r)) (store st)))"
  by (simp add: query_smart_eq)

lemma reply_of:
  "fst (fst (query_smart ga uuid4 now r st)) =
   fst (query_smart_turn ga now (request_session_id uuid4 r) r
              (session_of st (request_session_id uuid4 r)) (store st))"
  by (simp add: query_smart_eq)


lemma session_inv_new: "session_inv new_session"
  by (simp add: session_inv_def new_session_def)

lemma cancel_resolution_inv:
  assumes "session_inv s" "\<not> awaiting_phone_for_cancel s"
  shows "session_inv (fst (snd (cancel_resolution now sid ph s db)))"
proof -
  let ?a = "newest_first (active_bookings_of ph db)"
  have "2 \<le> length ?a" if "?a \<noteq> []" "length ?a \<noteq> 1"
    using that by (cases ?a) (auto simp: Suc_le_eq)
  with assms show ?thesis
    by (auto simp: cancel_resolution_cases Let_def session_inv_def dest: active_bookings_of_status)
qed

lemma turn_inv:
  assumes "session_inv s"
  shows "session_inv (fst (snd (query_smart_turn ga now sid r s db)))"
proof (cases "awaiting_phone_for_cancel s")
  case True
  let ?ph = "normalize_phone (strip (req_query r))"
  from assms True have "session_inv (s\<lparr>session_phone := Some ?ph, awaiting_phone_for_cancel := False\<rparr>)"
    by (simp add: session_inv_def)
  then show ?thesis using True by (simp add: turn_awaiting_phone cancel_resolution_inv)
next
  case False
  note ap = False
  show ?thesis
  proof (cases "awaiting_booking_id s")
    case True
    show ?thesis
    proof (cases "strip (req_query r) \<in> set (map booking_id (pending_bookings s))")
      case True
      with ap \<open>awaiting_booking_id s\<close> assms show ?thesis
        by (simp add: turn_choice_found session_inv_def)
    next
      case False
      with ap \<open>awaiting_booking_id s\<close> assms show ?thesis
        by (simp add: turn_choice_not_found)
    qed
  next
    case False
    note ab = False
    show ?thesis
    proof (cases "has_cancel_keyword (strip (req_query r))")
      case True
      show ?thesis
      proof (cases "strip (or_empty (py_or (req_phone r) (session_phone s))) = []")
        case True
        with ap ab \<open>has_cancel_keyword (strip (req_query r))\<close> assms show ?thesis
          by (simp add: turn_ask_phone session_inv_def)
      next
        case False
        let ?ph = "normalize_phone (strip (or_empty (py_or (req_phone r) (session_phone s))))"
        from assms ap have "session_inv (s\<lparr>session_phone := Some ?ph\<rparr>)"
          and "\<not> awaiting_phone_for_cancel (s\<lparr>session_phone := Some ?ph\<rparr>)"
          by (simp_all add: session_inv_def)
        then show ?thesis
          using ap ab True False by (simp add: turn_trigger cancel_resolution_inv)
      qed
    next
      case False
      with ap ab assms show ?thesis by (simp add: turn_answer)
    qed
  qed
qed

lemma session_of_inv:
  "(\<forall>sid s. sessions st sid = Some s \<longrightarrow> session_inv s) \<Longrightarrow> session_inv (session_of st sid)"
  by (auto simp: session_of_def session_inv_new split: option.splits)

lemma step_inv:
  assumes "\<forall>sid s. sessions st sid = Some s \<longrightarrow> session_inv s"
  shows "\<forall>sid s. sessions (step data ga st ev) sid = Some s \<longrightarrow> session_inv s"
proof (cases ev)
  case (Query uuid4 now r)
  from assms have "session_inv (session_of st (request_session_id uuid4 r))"
    by (rule session_of_inv)
  then have "session_inv (fst (snd (query_smart_turn ga now (request_session_id uuid4 r) r
              (session_of st (request_session_id uuid4 r)) (store st))))"
    by (rule turn_inv)
  with assms Query show ?thesis by (auto simp: query_smart_eq)
next
  case (CreateBooking now body)
  with assms show ?thesis by (auto split: sum.splits)
next
  case (DeleteBooking now bid permanent)
  with assms show ?thesis by (auto split: sum.splits)
qed

lemma foldl_step_inv:
  "(\<forall>sid s. sessions st sid = Some s \<longrightarrow> session_inv s) \<Longrightarrow>
   (\<forall>sid s. sessions (foldl (step data ga) st evs) sid = Some s \<longrightarrow> session_inv s)"
proof (induction evs arbitrary: st)
  case Nil
  then show ?case by simp
next
  case (Cons ev evs)
  from Cons.prems have "\<forall>sid s. sessions (step data ga st ev) sid = Some s \<longrightarrow> session_inv s"
    by (rule step_inv)
  then show ?case using Cons.IH by simp
qed

lemma run_inv:
  "sessions (run data ga (initial_state db0) evs) sid = Some s \<Longrightarrow> session_inv s"
  using foldl_step_inv [of "initial_state db0" data ga evs]
  by (simp add: run_def initial_state_def)

lemma run_session_of_inv: "session_inv (session_of (run data ga (initial_state db0) evs) sid)"
  by (rule session_of_inv) (blast intro: run_inv)


section \<open>The replies and the store after a turn\<close>

lemma cancelled_message_text:
  "cancelled_message bid =
     [CHR 0xE2, CHR 0x80, CHR 0x9A, CHR 0xC3, CHR 0xBA, CHR 0xC3, CHR 0x96] @
     '' Booking '' @ bid @ '' has been cancelled successfully.''"
  by (simp add: cancelled_message_def CHECK_MARK_def)


lemma no_active_message_text:
  "no_active_message ph =
     [CHR 0xE2, CHR 0x80, CHR 0x9A, CHR 0xC3, CHR 0x91, CHR 0xCF, CHR 0x80,
      CHR 0xC3, CHR 0x94, CHR 0xE2, CHR 0x88, CHR 0x8F, CHR 0xC3, CHR 0xA8] @
     '' No active bookings found for phone number '' @ ph"
  by (simp add: no_active_message_def INFO_MARK_def)

lemma foldl_append_lines:
  "foldl (\<lambda>message b. message @ f b) acc bs = acc @ concat (map f bs)"
  by (induction bs arbitrary: acc) simp_all

lemma booking_line_text:
  "booking_line =
     (\<lambda>b. from_district b @ '' '' @
          [CHR 0xE2, CHR 0x80, CHR 0x9A, CHR 0xC3, CHR 0x9C, CHR 0xC3, CHR 0xAD] @ '' '' @
          to_district b @ '' on '' @ travel_date b @ '' (ID: '' @ booking_id b @ '')'' @ [CHR 0x0A])"
  by (rule ext) (simp add: booking_line_def ARROW_def newline_def)

lemma multiple_message_eq:
  "multiple_message bs =
     ''You have multiple active bookings:'' @ newline @ concat (map booking_line bs) @ newline @
     ''Please provide the Booking ID you want to cancel.''"
  by (simp add: multiple_message_def foldl_append_lines)

lemma multiple_message_text:
  "multiple_message bs =
     ''You have multiple active bookings:'' @ [CHR 0x0A] @
     concat (map (\<lambda>b. from_district b @ '' '' @
                    [CHR 0xE2, CHR 0x80, CHR 0x9A, CHR 0xC3, CHR 0x9C, CHR 0xC3, CHR 0xAD] @ '' '' @
                    to_district b @ '' on '' @ travel_date b @ '' (ID: '' @ booking_id b @ '')'' @
                    [CHR 0x0A]) bs) @
     [CHR 0x0A] @ ''Please provide the Booking ID you want to cancel.''"
  unfolding multiple_message_eq booking_line_text newline_def ..

lemma bookings_save_chat [simp]:
  "bookings (save_chat_message sid role m p db) = bookings db"
  by (simp add: save_chat_message_def)

lemma cancel_row_text:
  "cancel_row bid now =
     (\<lambda>x. if booking_id x = bid \<and> status x = ''active''
          then x\<lparr>status := ''cancelled'', cancelled_date := Some now\<rparr> else x)"
  by (rule ext) (simp add: cancel_row_def)

lemma bookings_cancel_booking:
  "bookings (snd (cancel_booking bid now db)) = map (cancel_row bid now) (bookings db)"
  by (simp add: cancel_booking_def Let_def)

lemma cancel_row_booking_id [simp]: "booking_id (cancel_row bid now b) = booking_id b"
  by (simp add: cancel_row_def)

lemma cancel_one_row:
  assumes "distinct (map booking_id (bookings db))" "b \<in> set (bookings db)" "status b = ''active''"
  shows "\<exists>i<length (bookings db). bookings db ! i = b \<and>
           map (cancel_row (booking_id b) now) (bookings db) =
             (bookings db)[i := b\<lparr>status := ''cancelled'', cancelled_date := Some now\<rparr>]"
proof -
  from assms(2) obtain i where i: "i < length (bookings db)" "bookings db ! i = b"
    by (metis in_set_conv_nth)
  with assms(3) have "map (cancel_row (booking_id b) now) (bookings db) =
      (bookings db)[i := (bookings db ! i)\<lparr>status := ''cancelled'', cancelled_date := Some now\<rparr>]"
    by (intro map_cancel_row_unique [OF assms(1)]) simp_all
  with i show ?thesis by auto
qed

lemma cancel_resolution_fields:
  "session_phone (fst (snd (cancel_resolution now sid ph s db))) = session_phone s"
  "awaiting_phone_for_cancel (fst (snd (cancel_resolution now sid ph s db))) = awaiting_phone_for_cancel s"
  by (simp_all add: cancel_resolution_cases Let_def)

lemma cancel_resolution_none:
  assumes "active_bookings_of ph db = []"
  shows "cancel_resolution now sid ph s db =
    (no_active_message ph, s,
     save_chat_message sid ''assistant'' (no_active_message ph) (Some ph) db)"
  using assms by (simp add: cancel_resolution_cases Let_def newest_first_Nil)

lemma cancel_resolution_single:
  assumes "length (active_bookings_of ph db) = 1"
  shows "cancel_resolution now sid ph s db =
    (cancelled_message (booking_id (hd (active_bookings_of ph db))), s,
     save_chat_message sid ''assistant''
       (cancelled_message (booking_id (hd (active_bookings_of ph db)))) (Some ph)
       (snd (cancel_booking (booking_id (hd (active_bookings_of ph db))) now db)))"
proof -
  from assms obtain b where b: "active_bookings_of ph db = [b]"
    by (cases "active_bookings_of ph db") auto
  show ?thesis by (simp add: cancel_resolution_cases Let_def b)
qed

lemma cancel_resolution_several:
  assumes "1 < length (active_bookings_of ph db)"
  shows "cancel_resolution now sid ph s db =
    (multiple_message (newest_first (active_bookings_of ph db)),
     s\<lparr>pending_bookings := newest_first (active_bookings_of ph db), awaiting_booking_id := True\<rparr>,
     save_chat_message sid ''assistant''
       (multiple_message (newest_first (active_bookings_of ph db))) (Some ph) db)"
proof -
  from assms have "newest_first (active_bookings_of ph db) \<noteq> []"
    "length (newest_first (active_bookings_of ph db)) \<noteq> 1"
    by (auto simp: newest_first_Nil)
  then show ?thesis by (simp add: cancel_resolution_cases Let_def)
qed

text \<open>
  The three outcomes of a turn that enters cancel-resolution with the phone \<open>ph\<close>, on the
  process state.
\<close>

lemma resolution_none:
  assumes "resolution_phone r (session_of st (request_session_id uuid4 r)) = Some ph"
    and "active_bookings_of ph (store st) = []"
  shows "fst (fst (query_smart ga uuid4 now r st)) = no_active_message ph"
    and "session_of (snd (query_smart ga uuid4 now r st)) (request_session_id uuid4 r) =
           (session_of st (request_session_id uuid4 r))
             \<lparr>session_phone := Some ph, awaiting_phone_for_cancel := False\<rparr>"
    and "bookings (store (snd (query_smart ga uuid4 now r st))) = bookings (store st)"
proof -
  from assms(2) have n: "active_bookings_of ph
      (save_chat_message (request_session_id uuid4 r) ''user'' (req_query r) (req_phone r) (store st)) = []"
    by simp
  note turn = turn_resolution [OF assms(1), where ga = ga and now = now
      and sid = "request_session_id uuid4 r" and db = "store st"]
  show "fst (fst (query_smart ga uuid4 now r st)) = no_active_message ph"
    by (simp add: reply_of turn cancel_resolution_none [OF n])
  show "session_of (snd (query_smart ga uuid4 now r st)) (request_session_id uuid4 r) =
           (session_of st (request_session_id uuid4 r))
             \<lparr>session_phone := Some ph, awaiting_phone_for_cancel := False\<rparr>"
    by (simp add: session_of_after turn cancel_resolution_none [OF n])
  show "bookings (store (snd (query_smart ga uuid4 now r st))) = bookings (store st)"
    by (simp add: store_after turn cancel_resolution_none [OF n])
qed

lemma resolution_single:
  assumes "resolution_phone r (session_of st (request_session_id uuid4 r)) = Some ph"
    and "length (active_bookings_of ph (store st)) = 1"
  shows "fst (fst (query_smart ga uuid4 now r st)) =
           cancelled_message (booking_id (hd (active_bookings_of ph (store st))))"
    and "session_of (snd (query_smart ga uuid4 now r st)) (request_session_id uuid4 r) =
           (session_of st (request_session_id uuid4 r))
             \<lparr>session_phone := Some ph, awaiting_phone_for_cancel := False\<rparr>"
    and "bookings (store (snd (query_smart ga uuid4 now r st))) =
           map (cancel_row (booking_id (hd (active_bookings_of ph (store st)))) now) (bookings (store st))"
proof -
  from assms(2) have n: "length (active_bookings_of ph
      (save_chat_message (request_session_id uuid4 r) ''user'' (req_query r) (req_phone r) (store st))) = 1"
    by simp
  note turn = turn_resolution [OF assms(1), where ga = ga and now = now
      and sid = "request_session_id uuid4 r" and db = "store st"]
  show "fst (fst (query_smart ga uuid4 now r st)) =
           cancelled_message (booking_id (hd (active_bookings_of ph (store st))))"
    by (simp add: reply_of turn cancel_resolution_single [OF n])
  show "session_of (snd (query_smart ga uuid4 now r st)) (request_session_id uuid4 r) =
           (session_of st (request_session_id uuid4 r))
             \<lparr>session_phone := Some ph, awaiting_phone_for_cancel := False\<rparr>"
    by (simp add: session_of_after turn cancel_resolution_single [OF n])
  show "bookings (store (snd (query_smart ga uuid4 now r st))) =
           map (cancel_row (booking_id (hd (active_bookings_of ph (store st)))) now) (bookings (store st))"
    by (simp add: store_after turn cancel_resolution_single [OF n] bookings_cancel_booking)
qed

lemma resolution_several:
  assumes "resolution_phone r (session_of st (request_session_id uuid4 r)) = Some ph"
    and "1 < length (active_bookings_of ph (store st))"
  shows "fst (fst (query_smart ga uuid4 now r st)) =
           multiple_message (newest_first (active_bookings_of ph (store st)))"
    and "session_of (snd (query_smart ga uuid4 now r st)) (request_session_id uuid4 r) =
           (session_of st (request_session_id uuid4 r))
             \<lparr>session_phone := Some ph, awaiting_phone_for_cancel := False,
              pending_bookings := newest_first (active_bookings_of ph (store st)),
              awaiting_booking_id := True\<rparr>"
    and "bookings (store (snd (query_smart ga uuid4 now r st))) = bookings (store st)"
proof -
  from assms(2) have n: "1 < length (active_bookings_of ph
      (save_chat_message (request_session_id uuid4 r) ''user'' (req_query r) (req_phone r) (store st)))"
    by simp
  note turn = turn_resolution [OF assms(1), where ga = ga and now = now
      and sid = "request_session_id uuid4 r" and db = "store st"]
  show "fst (fst (query_smart ga uuid4 now r st)) =
           multiple_message (newest_first (active_bookings_of ph (store st)))"
    by (simp add: reply_of turn cancel_resolution_several [OF n])
  show "session_of (snd (query_smart ga uuid4 now r st)) (request_session_id uuid4 r) =
           (session_of st (request_session_id uuid4 r))
             \<lparr>session_phone := Some ph, awaiting_phone_for_cancel := False,
              pending_bookings := newest_first (active_bookings_of ph (store st)),
              awaiting_booking_id := True\<rparr>"
    by (simp add: session_of_after turn cancel_resolution_several [OF n])
  show "bookings (store (snd (query_smart ga uuid4 now r st))) = bookings (store st)"
    by (simp add: store_after turn cancel_resolution_several [OF n])
qed


section \<open>The transition rules of the router\<close>

lemma awaiting_phone_resolution:
  assumes "awaiting_phone_for_cancel s"
  shows "resolution_phone r s =
     Some (if prefix ''+88'' (strip (req_query r)) then drop 3 (strip (req_query r))
           else strip (req_query r))"
  using assms by (simp add: resolution_phone_def without_prefix_def)

text \<open>
  C3. When the session awaits a phone, \<open>query_smart\<close> takes the whole query text (the
  stripped query, whatever it contains) as the phone: the phone \<open>ph\<close> is the query text
  without a leading \<open>+88\<close>; it is stored as the session's phone and
  \<open>awaiting_phone_for_cancel\<close> is cleared, whatever the resolution gives. The resolution is
  that of \<open>ph\<close>: with no active booking of \<open>ph\<close> in the table, the reply says so and no
  booking changes; with exactly one, the reply confirms its cancellation and the active
  rows of its identifier are cancelled; with more, they are stored as \<open>pending_bookings\<close>,
  newest first, \<open>awaiting_booking_id\<close> is set and the reply lists them.
\<close>

theorem awaiting_phone_takes_query_as_phone:
  assumes "awaiting_phone_for_cancel (session_of st sid)"
    and "sid = request_session_id uuid4 r"
    and "ph = (if prefix ''+88'' (strip (req_query r)) then drop 3 (strip (req_query r))
               else strip (req_query r))"
    and "reply = fst (fst (query_smart ga uuid4 now r st))"
    and "st' = snd (query_smart ga uuid4 now r st)"
  shows "session_phone (session_of st' sid) = Some ph
       \<and> \<not> awaiting_phone_for_cancel (session_of st' sid)
       \<and> (active_bookings_of ph (store st) = [] \<longrightarrow>
            reply = [CHR 0xE2, CHR 0x80, CHR 0x9A, CHR 0xC3, CHR 0x91, CHR 0xCF, CHR 0x80,
                     CHR 0xC3, CHR 0x94, CHR 0xE2, CHR 0x88, CHR 0x8F, CHR 0xC3, CHR 0xA8] @
                    '' No active bookings found for phone number '' @ ph \<and>
            session_of st' sid =
              (session_of st sid)\<lparr>session_phone := Some ph, awaiting_phone_for_cancel := False\<rparr> \<and>
            bookings (store st') = bookings (store st))
       \<and> (length (active_bookings_of ph (store st)) = 1 \<longrightarrow>
            reply = [CHR 0xE2, CHR 0x80, CHR 0x9A, CHR 0xC3, CHR 0xBA, CHR 0xC3, CHR 0x96] @
                    '' Booking '' @ booking_id (hd (active_bookings_of ph (store st))) @
                    '' has been cancelled successfully.'' \<and>
            session_of st' sid =
              (session_of st sid)\<lparr>session_phone := Some ph, awaiting_phone_for_cancel := False\<rparr> \<and>
            bookings (store st') =
              map (\<lambda>x. if booking_id x = booking_id (hd (active_bookings_of ph (store st))) \<and>
                           status x = ''active''
                        then x\<lparr>status := ''cancelled'', cancelled_date := Some now\<rparr> else x)
                (bookings (store st)))
       \<and> (1 < length (active_bookings_of ph (store st)) \<longrightarrow>
            reply = ''You have multiple active bookings:'' @ [CHR 0x0A] @
                    concat (map (\<lambda>b. from_district b @ '' '' @
                                   [CHR 0xE2, CHR 0x80, CHR 0x9A, CHR 0xC3, CHR 0x9C, CHR 0xC3, CHR 0xAD] @
                                   '' '' @ to_district b @ '' on '' @ travel_date b @
                                   '' (ID: '' @ booking_id b @ '')'' @ [CHR 0x0A])
                              (newest_first (active_bookings_of ph (store st)))) @
                    [CHR 0x0A] @ ''Please provide the Booking ID you want to cancel.'' \<and>
            session_of st' sid =
              (session_of st sid)\<lparr>session_phone := Some ph, awaiting_phone_for_cancel := False,
                 pending_bookings := newest_first (active_bookings_of ph (store st)),
                 awaiting_booking_id := True\<rparr> \<and>
            bookings (store st') = bookings (store st))"
proof -
  from assms(1,2,3)
  have rp: "resolution_phone r (session_of st (request_session_id uuid4 r)) = Some ph"
    by (simp add: awaiting_phone_resolution)
  let ?a = "active_bookings_of ph (store st)"
  have none: "reply = no_active_message ph \<and>
      session_of st' sid =
        (session_of st sid)\<lparr>session_phone := Some ph, awaiting_phone_for_cancel := False\<rparr> \<and>
      bookings (store st') = bookings (store st)" if "?a = []"
    using resolution_none [OF rp that, where ga = ga and now = now] assms(2,4,5) by simp
  have one: "reply = cancelled_message (booking_id (hd ?a)) \<and>
      session_of st' sid =
        (session_of st sid)\<lparr>session_phone := Some ph, awaiting_phone_for_cancel := False\<rparr> \<and>
      bookings (store st') = map (cancel_row (booking_id (hd ?a)) now) (bookings (store st))"
    if "length ?a = 1"
    using resolution_single [OF rp that, where ga = ga and now = now] assms(2,4,5) by simp
  have more: "reply = multiple_message (newest_first ?a) \<and>
      session_of st' sid =
        (session_of st sid)\<lparr>session_phone := Some ph, awaiting_phone_for_cancel := False,
           pending_bookings := newest_first ?a, awaiting_booking_id := True\<rparr> \<and>
      bookings (store st') = bookings (store st)" if "1 < length ?a"
    using resolution_several [OF rp that, where ga = ga and now = now] assms(2,4,5) by simp
  have "?a = [] \<or> length ?a = 1 \<or> 1 < length ?a"
    by (cases ?a) auto
  then have sess: "session_phone (session_of st' sid) = Some ph \<and>
      \<not> awaiting_phone_for_cancel (session_of st' sid)"
    using none one more by auto
  from sess none one more show ?thesis
    unfolding no_active_message_text cancelled_message_text multiple_message_text cancel_row_text
    by blast
qed

lemma choice_found:
  assumes "awaiting_booking_id (session_of st (request_session_id uuid4 r))"
    and "\<not> awaiting_phone_for_cancel (session_of st (request_session_id uuid4 r))"
    and "strip (req_query r) \<in> set (map booking_id
           (pending_bookings (session_of st (request_session_id uuid4 r))))"
  shows "fst (fst (query_smart ga uuid4 now r st)) = cancelled_message (strip (req_query r))"
    and "session_of (snd (query_smart ga uuid4 now r st)) (request_session_id uuid4 r) =
           (session_of st (request_session_id uuid4 r))
             \<lparr>awaiting_booking_id := False, pending_bookings := []\<rparr>"
    and "bookings (store (snd (query_smart ga uuid4 now r st))) =
           map (cancel_row (strip (req_query r)) now) (bookings (store st))"
proof -
  note turn = turn_choice_found [OF assms(2) assms(1) assms(3),
      where ga = ga and now = now and db = "store st"]
  show "fst (fst (query_smart ga uuid4 now r st)) = cancelled_message (strip (req_query r))"
    by (simp add: reply_of turn)
  show "session_of (snd (query_smart ga uuid4 now r st)) (request_session_id uuid4 r) =
           (session_of st (request_session_id uuid4 r))
             \<lparr>awaiting_booking_id := False, pending_bookings := []\<rparr>"
    by (simp add: session_of_after turn)
  show "bookings (store (snd (query_smart ga uuid4 now r st))) =
           map (cancel_row (strip (req_query r)) now) (bookings (store st))"
    by (simp add: store_after turn bookings_cancel_booking)
qed





section \<open>Cancel-resolution\<close>





text \<open>
  C7. In a state reached from the start of the process, on a table with unique
  identifiers, when a turn enters cancel-resolution (by either path) with a phone that has
  exactly one active booking in the table, that row, and no other, changes: to the status
  \<open>cancelled\<close> with the cancellation time. The reply is the confirmation naming its
  identifier, \<open>pending_bookings\<close> is empty and both flags are false.
\<close>

theorem single_active_booking_is_cancelled:
  assumes "st = run data ga0 (initial_state db0) evs"
    and "distinct (map booking_id (bookings (store st)))"
    and "resolution_phone r (session_of st sid) = Some ph"
    and "sid = request_session_id uuid4 r"
    and "active_bookings_of ph (store st) = [b]"
    and "reply = fst (fst (query_smart ga uuid4 now r st))"
    and "st' = snd (query_smart ga uuid4 now r st)"
  shows "b \<in> set (bookings (store st)) \<and> phone b = ph \<and> status b = ''active''
       \<and> (\<exists>i<length (bookings (store st)).
            bookings (store st) ! i = b \<and>
            bookings (store st') =
              (bookings (store st))[i := b\<lparr>status := ''cancelled'', cancelled_date := Some now\<rparr>])
       \<and> reply = [CHR 0xE2, CHR 0x80, CHR 0x9A, CHR 0xC3, CHR 0xBA, CHR 0xC3, CHR 0x96] @
                  '' Booking '' @ booking_id b @ '' has been cancelled successfully.''
       \<and> pending_bookings (session_of st' sid) = []
       \<and> \<not> awaiting_booking_id (session_of st' sid)
       \<and> \<not> awaiting_phone_for_cancel (session_of st' sid)"
proof -
  let ?s = "session_of st sid"
  from assms(1) have inv: "session_inv ?s" by (simp add: run_session_of_inv)
  from assms(3) have "awaiting_phone_for_cancel ?s \<or> \<not> awaiting_booking_id ?s"
    by (auto simp: resolution_phone_def split: if_splits)
  with inv have idle: "\<not> awaiting_booking_id ?s" "pending_bookings ?s = []"
    by (auto simp: session_inv_def)
  from assms(3,4)
  have rp: "resolution_phone r (session_of st (request_session_id uuid4 r)) = Some ph"
    by simp
  from assms(5) have one: "length (active_bookings_of ph (store st)) = 1"
    and hd: "hd (active_bookings_of ph (store st)) = b"
    by simp_all
  note res = resolution_single [OF rp one, where ga = ga and now = now]
  from assms(5) have bmem: "b \<in> set (active_bookings_of ph (store st))" by simp
  then have b_in: "b \<in> set (bookings (store st))" and b_ph: "phone b = ph"
    and b_act: "status b = ''active''"
    by (auto dest: active_bookings_of_member active_bookings_of_phone active_bookings_of_status)
  from res(3) assms(7) have bk: "bookings (store st') =
      map (cancel_row (booking_id b) now) (bookings (store st))"
    by (simp add: hd)
  from cancel_one_row [OF assms(2) b_in b_act, of now]
  have row: "\<exists>i<length (bookings (store st)).
            bookings (store st) ! i = b \<and>
            bookings (store st') =
              (bookings (store st))[i := b\<lparr>status := ''cancelled'', cancelled_date := Some now\<rparr>]"
    unfolding bk .
  from res(1) assms(6) have reply: "reply = cancelled_message (booking_id b)"
    by (simp add: hd)
  from res(2) assms(4,7) have sess: "session_of st' sid =
      ?s\<lparr>session_phone := Some ph, awaiting_phone_for_cancel := False\<rparr>"
    by simp
  from b_in b_ph b_act row reply idle show ?thesis
    unfolding cancelled_message_text by (simp add: sess)
qed


section \<open>Invariants of the session state\<close>

text \<open>
  C2. In every state reached from the start of the process by calls of \<open>query_smart\<close>
  (and of the booking endpoints), no session has both \<open>awaiting_booking_id\<close> and
  \<open>awaiting_phone_for_cancel\<close> true.
\<close>

theorem flags_mutually_exclusive:
  "sessions (run data ga (initial_state db0) evs) sid = Some s \<Longrightarrow>
   \<not> (awaiting_booking_id s \<and> awaiting_phone_for_cancel s)"
  by (drule run_inv) (simp add: session_inv_def)

text \<open>
  C10. In every state reached from the start of the process, for every session,
  \<open>pending_bookings\<close> is non-empty if and only if \<open>awaiting_booking_id\<close> is true, and a
  non-empty \<open>pending_bookings\<close> holds at least two bookings, each recorded with status
  \<open>active\<close>.
\<close>

theorem pending_iff_awaiting_choice:
  "sessions (run data ga (initial_state db0) evs) sid = Some s \<Longrightarrow>
   (pending_bookings s \<noteq> [] \<longleftrightarrow> awaiting_booking_id s) \<and>
   (pending_bookings s \<noteq> [] \<longrightarrow>
      2 \<le> length (pending_bookings s) \<and> (\<forall>b\<in>set (pending_bookings s). status b = ''active''))"
  by (drule run_inv) (simp add: session_inv_def)


section \<open>The example dialogue, state by state\<close>

lemma demo_request_sel [simp]:
  "req_query (demo_request q) = q" "req_phone (demo_request q) = None"
  "req_session_id (demo_request q) = Some ''S1''"
  by (simp_all add: demo_request_def)

lemma demo_sid [simp]: "request_session_id u (demo_request q) = ''S1''"
  by (simp add: request_session_id_def py_or_def or_empty_def)

lemma demo_hint_sid [simp]: "request_session_id ''u9'' demo_hint_request = ''u9''"
  by (simp add: request_session_id_def demo_hint_request_def py_or_def or_empty_def)

lemma new_session_sel [simp]:
  "\<not> awaiting_phone_for_cancel new_session" "\<not> awaiting_booking_id new_session"
  "pending_bookings new_session = []" "session_phone new_session = None"
  by (simp_all add: new_session_def)

lemma initial_session [simp]: "session_of (initial_state db0) sid = new_session"
  by (simp add: session_of_def initial_state_def)

lemma initial_store [simp]: "store (initial_state db0) = db0"
  by (simp add: initial_state_def)

lemma demo_keyword: "has_cancel_keyword (strip ''I want to cancel my ticket'')"
  by (simp add: demo_strip_cancel has_cancel_keyword_def string_eval)


lemma demo_strip_padded_phone: "strip padded_phone = ''+8801711000000''"
  unfolding padded_phone_def by code_simp


lemma demo_strip_word: "strip ''cancel'' = ''cancel''"
  by code_simp

lemma demo_normalize: "normalize_phone ''01711000000'' = ''01711000000''"
  "normalize_phone ''+8801711000000'' = ''01711000000''"
  by (simp_all add: normalize_phone_def startswith_def)

lemma BK_sel [simp]:
  "booking_id BK1 = ''BK00001''" "booking_id BK2 = ''BK00002''" "booking_id BK2s = ''BK00002''"
  "status BK1 = ''active''" "status BK2 = ''active''" "status BK2s = ''active''"
  "phone BK1 = ''01711000000''" "phone BK2 = ''01711000000''" "phone BK2s = ''01711000000''"
  "created_at BK1 = 100" "created_at BK2 = 160" "created_at BK2s = 100"
  by (simp_all add: BK1_def BK2_def BK2s_def demo_row_def)

lemma BK_neq [simp]: "BK1 \<noteq> BK2" "BK2 \<noteq> BK1" "BK1 \<noteq> BK2s" "BK2s \<noteq> BK1"
  by (simp_all add: BK1_def BK2_def BK2s_def demo_row_def)

lemma demo_db_bookings [simp]: "bookings demo_db = [BK1, BK2]"
  by (simp add: demo_db_def empty_database_def)

lemma same_second_db_bookings [simp]: "bookings same_second_db = [BK1, BK2s]"
  by (simp add: same_second_db_def empty_database_def)

lemma single_db_bookings [simp]:
  "bookings single_db = [BK1, BK2\<lparr>status := ''cancelled'', cancelled_date := Some ''t0''\<rparr>]"
  by (simp add: single_db_def empty_database_def)

lemma demo_active: "active_bookings_of ''01711000000'' demo_db = [BK1, BK2]"
  by (simp add: active_bookings_of_def)


lemma single_active: "active_bookings_of ''01711000000'' single_db = [BK1]"
  by (simp add: active_bookings_of_def)

lemma demo_newest_first: "newest_first [BK1, BK2] = [BK2, BK1]"
  by (simp add: newest_first_def)


lemma first_query_run:
  "run demo_data demo_answer (initial_state db) [first_query] =
     \<lparr>sessions = [''S1'' \<mapsto> demo_awaiting_phone],
      store = save_chat_message ''S1'' ''assistant'' ask_phone_message None
        (save_chat_message ''S1'' ''user'' ''I want to cancel my ticket'' None db)\<rparr>"
proof -
  have k: "has_cancel_keyword (strip (req_query (demo_request ''I want to cancel my ticket'')))"
    using demo_keyword by simp
  have e: "strip (or_empty (py_or (req_phone (demo_request ''I want to cancel my ticket''))
             (session_phone new_session))) = []"
    by (simp add: py_or_def or_empty_def)
  note turn = turn_ask_phone [OF new_session_sel(1) new_session_sel(2) k e,
      where ga = demo_answer and now = "''t3''" and sid = "''S1''" and db = db]
  show ?thesis
    by (simp add: first_query_def run_def initial_state_def query_smart_eq session_of_def turn
          demo_awaiting_phone_def)
qed

lemma run_snoc: "run data ga st (evs @ [ev]) = step data ga (run data ga st evs) ev"
  by (simp add: run_def)

lemma sessions_after:
  "sessions (snd (query_smart ga uuid4 now r st)) (request_session_id uuid4 r) =
     Some (session_of (snd (query_smart ga uuid4 now r st)) (request_session_id uuid4 r))"
  by (simp add: query_smart_eq session_of_def)

lemma demo_awaiting_phone_sel [simp]:
  "awaiting_phone_for_cancel demo_awaiting_phone" "\<not> awaiting_booking_id demo_awaiting_phone"
  "pending_bookings demo_awaiting_phone = []" "session_phone demo_awaiting_phone = None"
  by (simp_all add: demo_awaiting_phone_def)

lemma demo_state1_session [simp]: "session_of demo_state1 ''S1'' = demo_awaiting_phone"
  by (simp add: demo_state1_def first_query_run session_of_def)

lemma demo_state1_sessions: "sessions demo_state1 ''S1'' = Some demo_awaiting_phone"
  by (simp add: demo_state1_def first_query_run)

lemma demo_state1_bookings [simp]: "bookings (store demo_state1) = [BK1, BK2]"
  by (simp add: demo_state1_def first_query_run)

lemma demo_state1_active: "active_bookings_of ''01711000000'' (store demo_state1) = [BK1, BK2]"
  by (simp add: active_bookings_of_def)

lemma single_state_session [simp]: "session_of single_state ''S1'' = demo_awaiting_phone"
  by (simp add: single_state_def first_query_run session_of_def)

lemma single_state_bookings [simp]:
  "bookings (store single_state) = [BK1, BK2\<lparr>status := ''cancelled'', cancelled_date := Some ''t0''\<rparr>]"
  by (simp add: single_state_def first_query_run)

lemma single_state_active: "active_bookings_of ''01711000000'' (store single_state) = [BK1]"
  by (simp add: active_bookings_of_def)

lemma demo_state2_step:
  "demo_state2 = snd (query_smart demo_answer ''u2'' ''t4'' (demo_request ''01711000000'') demo_state1)"
proof -
  have "demo_state2 = step demo_data demo_answer demo_state1
          (Query ''u2'' ''t4'' (demo_request ''01711000000''))"
    unfolding demo_state2_def demo_state1_def
    using run_snoc [of demo_data demo_answer "initial_state demo_db" "[first_query]"
        "Query ''u2'' ''t4'' (demo_request ''01711000000'')"]
    by simp
  then show ?thesis by simp
qed

lemma demo_phone_resolution:
  "resolution_phone (demo_request ''01711000000'') demo_awaiting_phone = Some ''01711000000''"
  by (simp add: resolution_phone_def demo_strip_phone without_prefix_def)

lemma demo_state2_session [simp]: "session_of demo_state2 ''S1'' = demo_awaiting_choice"
proof -
  have rp: "resolution_phone (demo_request ''01711000000'')
      (session_of demo_state1 (request_session_id ''u2'' (demo_request ''01711000000''))) =
      Some ''01711000000''"
    by (simp add: demo_phone_resolution)
  have n: "1 < length (active_bookings_of ''01711000000'' (store demo_state1))"
    by (simp add: demo_state1_active)
  from resolution_several(2) [OF rp n, of demo_answer "''t4''"] show ?thesis
    by (simp add: demo_state2_step demo_state1_active demo_newest_first demo_awaiting_phone_def
          demo_awaiting_choice_def new_session_def)
qed

lemma demo_state2_sessions: "sessions demo_state2 ''S1'' = Some demo_awaiting_choice"
  using sessions_after [of demo_answer "''u2''" "''t4''" "demo_request ''01711000000''" demo_state1]
    demo_state2_session
  by (simp add: demo_state2_step)

lemma demo_state2_bookings [simp]: "bookings (store demo_state2) = [BK1, BK2]"
proof -
  have rp: "resolution_phone (demo_request ''01711000000'')
      (session_of demo_state1 (request_session_id ''u2'' (demo_request ''01711000000''))) =
      Some ''01711000000''"
    by (simp add: demo_phone_resolution)
  have n: "1 < length (active_bookings_of ''01711000000'' (store demo_state1))"
    by (simp add: demo_state1_active)
  from resolution_several(3) [OF rp n, of demo_answer "''t4''"] show ?thesis
    by (simp add: demo_state2_step)
qed

lemma demo_choice_sel [simp]:
  "awaiting_booking_id demo_awaiting_choice" "\<not> awaiting_phone_for_cancel demo_awaiting_choice"
  "pending_bookings demo_awaiting_choice = [BK2, BK1]"
  "session_phone demo_awaiting_choice = Some ''01711000000''"
  by (simp_all add: demo_awaiting_choice_def)

lemma demo_state3_step:
  "demo_state3 = snd (query_smart demo_answer ''u3'' ''t5'' (demo_request ''BK00002'') demo_state2)"
proof -
  have "demo_state3 = step demo_data demo_answer demo_state2
          (Query ''u3'' ''t5'' (demo_request ''BK00002''))"
    unfolding demo_state3_def demo_state2_def
    using run_snoc [of demo_data demo_answer "initial_state demo_db"
        "[first_query, Query ''u2'' ''t4'' (demo_request ''01711000000'')]"
        "Query ''u3'' ''t5'' (demo_request ''BK00002'')"]
    by simp
  then show ?thesis by simp
qed

lemma demo_choice_hit:
  "strip (req_query (demo_request ''BK00002'')) \<in> set (map booking_id
     (pending_bookings (session_of demo_state2 (request_session_id ''u3'' (demo_request ''BK00002'')))))"
  by (simp add: demo_strip_id)

lemma demo_state3_session [simp]: "session_of demo_state3 ''S1'' = demo_idle"
proof -
  have a: "awaiting_booking_id (session_of demo_state2 (request_session_id ''u3'' (demo_request ''BK00002'')))"
    and p: "\<not> awaiting_phone_for_cancel
      (session_of demo_state2 (request_session_id ''u3'' (demo_request ''BK00002'')))"
    by simp_all
  from choice_found(2) [OF a p demo_choice_hit, of demo_answer "''t5''"] show ?thesis
    by (simp add: demo_state3_step demo_awaiting_choice_def demo_idle_def)
qed

lemma demo_state3_bookings [simp]:
  "bookings (store demo_state3) =
     [BK1, BK2\<lparr>status := ''cancelled'', cancelled_date := Some ''t5''\<rparr>]"
proof -
  have a: "awaiting_booking_id (session_of demo_state2 (request_session_id ''u3'' (demo_request ''BK00002'')))"
    and p: "\<not> awaiting_phone_for_cancel
      (session_of demo_state2 (request_session_id ''u3'' (demo_request ''BK00002'')))"
    by simp_all
  from choice_found(3) [OF a p demo_choice_hit, of demo_answer "''t5''"] show ?thesis
    by (simp add: demo_state3_step demo_strip_id cancel_row_def)
qed

lemma demo_state3_active: "active_bookings_of ''01711000000'' (store demo_state3) = [BK1]"
  by (simp add: active_bookings_of_def)

lemma stale_state_step:
  "stale_state = step demo_data demo_answer demo_state2 (DeleteBooking ''t5'' ''BK00002'' True)"
  unfolding stale_state_def demo_state2_def
  using run_snoc [of demo_data demo_answer "initial_state demo_db"
      "[first_query, Query ''u2'' ''t4'' (demo_request ''01711000000'')]"
      "DeleteBooking ''t5'' ''BK00002'' True"]
  by simp

lemma stale_state_eq:
  "stale_state = demo_state2\<lparr>store := (store demo_state2)
      \<lparr>deleted_bookings := deleted_bookings (store demo_state2) @ [(''BK00002'', BK2, ''01711000000'')],
       bookings := [BK1]\<rparr>\<rparr>"
  by (simp add: stale_state_step delete_booking_endpoint_def delete_booking_permanently_def)

lemma stale_state_session [simp]: "session_of stale_state ''S1'' = demo_awaiting_choice"
  using demo_state2_session by (simp add: stale_state_eq session_of_def)

lemma stale_state_bookings [simp]: "bookings (store stale_state) = [BK1]"
  by (simp add: stale_state_eq)

lemma clash_state_eq:
  "clash_state =
     \<lparr>sessions = Map.empty,
      store = empty_database\<lparr>bookings := [demo_row ''BK00001'' ''BK00002'' ''t1'' 100, BK2s]\<rparr>\<rparr>"
  by (simp add: clash_state_def run_two_creates BK2s_def)

lemma clash_session [simp]: "session_of clash_state sid = new_session"
  by (simp add: clash_state_eq session_of_def)





section \<open>The theorems on the example dialogue\<close>

text \<open>After its first query, a request to cancel without a phone, session S1 awaits a phone and no booking choice.\<close>

theorem flags_mutually_exclusive_witness:
  "sessions (run demo_data demo_answer (initial_state demo_db) [first_query]) ''S1'' =
     Some demo_awaiting_phone
   \<and> \<not> (awaiting_booking_id demo_awaiting_phone \<and> awaiting_phone_for_cancel demo_awaiting_phone)"
proof -
  have h: "sessions (run demo_data demo_answer (initial_state demo_db) [first_query]) ''S1'' =
     Some demo_awaiting_phone"
    using demo_state1_sessions by (simp add: demo_state1_def)
  from flags_mutually_exclusive [OF h] h show ?thesis by blast
qed

text \<open>After the phone is given, session S1 awaits a booking choice and is offered its two active bookings.\<close>

theorem pending_iff_awaiting_choice_witness:
  "sessions (run demo_data demo_answer (initial_state demo_db)
      [first_query, Query ''u2'' ''t4'' (demo_request ''01711000000'')]) ''S1'' =
     Some demo_awaiting_choice
   \<and> pending_bookings demo_awaiting_choice \<noteq> []
   \<and> awaiting_booking_id demo_awaiting_choice
   \<and> 2 \<le> length (pending_bookings demo_awaiting_choice)
   \<and> map status (pending_bookings demo_awaiting_choice) = [''active'', ''active'']"
proof -
  have h: "sessions (run demo_data demo_answer (initial_state demo_db)
      [first_query, Query ''u2'' ''t4'' (demo_request ''01711000000'')]) ''S1'' =
     Some demo_awaiting_choice"
    using demo_state2_sessions by (simp add: demo_state2_def)
  have a: "awaiting_booking_id demo_awaiting_choice" by simp
  from pending_iff_awaiting_choice [OF h] a
  have n: "pending_bookings demo_awaiting_choice \<noteq> []"
    and l: "2 \<le> length (pending_bookings demo_awaiting_choice)"
    and b: "\<forall>b\<in>set (pending_bookings demo_awaiting_choice). status b = ''active''"
    by blast+
  from b have "map status (pending_bookings demo_awaiting_choice) = [''active'', ''active'']"
    by simp
  with h n a l show ?thesis by blast
qed

text \<open>
  Session S1 awaits a phone. Sent \<open>+8801711000000\<close> between a no-break space and a line
  feed, it stores \<open>01711000000\<close> and is offered the two bookings of that phone, the newer
  first. Sent the word \<open>cancel\<close>, it stores that word as the phone and is told that this
  phone has no active booking. With one active booking of the phone, that booking is
  cancelled.
\<close>

theorem awaiting_phone_takes_query_as_phone_witness:
  "awaiting_phone_for_cancel (session_of demo_state1 ''S1'')
   \<and> ''S1'' = request_session_id ''u2'' (demo_request padded_phone)
   \<and> strip (req_query (demo_request padded_phone)) = ''+8801711000000''
   \<and> 1 < length (active_bookings_of ''01711000000'' (store demo_state1))
   \<and> session_phone (session_of
        (snd (query_smart demo_answer ''u2'' ''t4'' (demo_request padded_phone) demo_state1)) ''S1'') =
        Some ''01711000000''
   \<and> \<not> awaiting_phone_for_cancel (session_of
        (snd (query_smart demo_answer ''u2'' ''t4'' (demo_request padded_phone) demo_state1)) ''S1'')
   \<and> awaiting_booking_id (session_of
        (snd (query_smart demo_answer ''u2'' ''t4'' (demo_request padded_phone) demo_state1)) ''S1'')
   \<and> pending_bookings (session_of
        (snd (query_smart demo_answer ''u2'' ''t4'' (demo_request padded_phone) demo_state1)) ''S1'') =
        [BK2, BK1]
   \<and> has_cancel_keyword (strip (req_query (demo_request ''cancel'')))
   \<and> active_bookings_of ''cancel'' (store demo_state1) = []
   \<and> session_phone (session_of
        (snd (query_smart demo_answer ''u2'' ''t4'' (demo_request ''cancel'') demo_state1)) ''S1'') =
        Some ''cancel''
   \<and> fst (fst (query_smart demo_answer ''u2'' ''t4'' (demo_request ''cancel'') demo_state1)) =
        [CHR 0xE2, CHR 0x80, CHR 0x9A, CHR 0xC3, CHR 0x91, CHR 0xCF, CHR 0x80,
         CHR 0xC3, CHR 0x94, CHR 0xE2, CHR 0x88, CHR 0x8F, CHR 0xC3, CHR 0xA8] @
        '' No active bookings found for phone number cancel''
   \<and> awaiting_phone_for_cancel (session_of single_state ''S1'')
   \<and> length (active_bookings_of ''01711000000'' (store single_state)) = 1
   \<and> fst (fst (query_smart demo_answer ''u2'' ''t4'' (demo_request ''01711000000'') single_state)) =
        [CHR 0xE2, CHR 0x80, CHR 0x9A, CHR 0xC3, CHR 0xBA, CHR 0xC3, CHR 0x96] @
        '' Booking BK00001 has been cancelled successfully.''
   \<and> bookings (store (snd (query_smart demo_answer ''u2'' ''t4'' (demo_request ''01711000000'')
        single_state))) =
        [BK1\<lparr>status := ''cancelled'', cancelled_date := Some ''t4''\<rparr>,
         BK2\<lparr>status := ''cancelled'', cancelled_date := Some ''t0''\<rparr>]"
proof -
  have h1: "awaiting_phone_for_cancel (session_of demo_state1 ''S1'')"
    and hs: "awaiting_phone_for_cancel (session_of single_state ''S1'')"
    by simp_all
  have sid: "''S1'' = request_session_id ''u2'' (demo_request q)" for q
    by simp
  have q1: "strip (req_query (demo_request padded_phone)) = ''+8801711000000''"
    by (simp add: demo_strip_padded_phone)
  have p1: "''01711000000'' =
      (if prefix ''+88'' (strip (req_query (demo_request padded_phone)))
       then drop 3 (strip (req_query (demo_request padded_phone)))
       else strip (req_query (demo_request padded_phone)))"
    by (simp add: demo_strip_padded_phone)
  have p2: "''cancel'' =
      (if prefix ''+88'' (strip (req_query (demo_request ''cancel'')))
       then drop 3 (strip (req_query (demo_request ''cancel'')))
       else strip (req_query (demo_request ''cancel'')))"
    by (simp add: demo_strip_word)
  have p3: "''01711000000'' =
      (if prefix ''+88'' (strip (req_query (demo_request ''01711000000'')))
       then drop 3 (strip (req_query (demo_request ''01711000000'')))
       else strip (req_query (demo_request ''01711000000'')))"
    by (simp add: demo_strip_phone)
  have n1: "1 < length (active_bookings_of ''01711000000'' (store demo_state1))"
    by (simp add: demo_state1_active)
  have n2: "active_bookings_of ''cancel'' (store demo_state1) = []"
    by (simp add: active_bookings_of_def)
  have n3: "length (active_bookings_of ''01711000000'' (store single_state)) = 1"
    by (simp add: single_state_active)
  have k: "has_cancel_keyword (strip (req_query (demo_request ''cancel'')))"
    by (simp add: demo_strip_word has_cancel_keyword_def string_eval)
  note a = awaiting_phone_takes_query_as_phone [where st = demo_state1 and sid = "''S1''"
      and ?uuid4.0 = "''u2''" and r = "demo_request padded_phone" and ph = "''01711000000''"
      and ga = demo_answer and now = "''t4''", OF h1 sid p1 refl refl]
  note b = awaiting_phone_takes_query_as_phone [where st = demo_state1 and sid = "''S1''"
      and ?uuid4.0 = "''u2''" and r = "demo_request ''cancel''" and ph = "''cancel''"
      and ga = demo_answer and now = "''t4''", OF h1 sid p2 refl refl]
  note c = awaiting_phone_takes_query_as_phone [where st = single_state and sid = "''S1''"
      and ?uuid4.0 = "''u2''" and r = "demo_request ''01711000000''" and ph = "''01711000000''"
      and ga = demo_answer and now = "''t4''", OF hs sid p3 refl refl]
  from a have a1: "session_phone (session_of
        (snd (query_smart demo_answer ''u2'' ''t4'' (demo_request padded_phone) demo_state1)) ''S1'') =
        Some ''01711000000''"
    and a2: "\<not> awaiting_phone_for_cancel (session_of
        (snd (query_smart demo_answer ''u2'' ''t4'' (demo_request padded_phone) demo_state1)) ''S1'')"
    by blast+
  from a n1 have "session_of
        (snd (query_smart demo_answer ''u2'' ''t4'' (demo_request padded_phone) demo_state1)) ''S1'' =
      (session_of demo_state1 ''S1'')\<lparr>session_phone := Some ''01711000000'',
         awaiting_phone_for_cancel := False,
         pending_bookings := newest_first (active_bookings_of ''01711000000'' (store demo_state1)),
         awaiting_booking_id := True\<rparr>"
    by blast
  then have a3: "awaiting_booking_id (session_of
        (snd (query_smart demo_answer ''u2'' ''t4'' (demo_request padded_phone) demo_state1)) ''S1'')"
    and a4: "pending_bookings (session_of
        (snd (query_smart demo_answer ''u2'' ''t4'' (demo_request padded_phone) demo_state1)) ''S1'') =
        [BK2, BK1]"
    by (simp_all add: demo_state1_active demo_newest_first)
  from b have b1: "session_phone (session_of
        (snd (query_smart demo_answer ''u2'' ''t4'' (demo_request ''cancel'') demo_state1)) ''S1'') =
        Some ''cancel''"
    by blast
  from b n2 have "fst (fst (query_smart demo_answer ''u2'' ''t4'' (demo_request ''cancel'') demo_state1)) =
        [CHR 0xE2, CHR 0x80, CHR 0x9A, CHR 0xC3, CHR 0x91, CHR 0xCF, CHR 0x80,
         CHR 0xC3, CHR 0x94, CHR 0xE2, CHR 0x88, CHR 0x8F, CHR 0xC3, CHR 0xA8] @
        '' No active bookings found for phone number '' @ ''cancel''"
    by blast
  then have b2: "fst (fst (query_smart demo_answer ''u2'' ''t4'' (demo_request ''cancel'') demo_state1)) =
        [CHR 0xE2, CHR 0x80, CHR 0x9A, CHR 0xC3, CHR 0x91, CHR 0xCF, CHR 0x80,
         CHR 0xC3, CHR 0x94, CHR 0xE2, CHR 0x88, CHR 0x8F, CHR 0xC3, CHR 0xA8] @
        '' No active bookings found for phone number cancel''"
    by simp
  from c n3 have "fst (fst (query_smart demo_answer ''u2'' ''t4'' (demo_request ''01711000000'') single_state)) =
        [CHR 0xE2, CHR 0x80, CHR 0x9A, CHR 0xC3, CHR 0xBA, CHR 0xC3, CHR 0x96] @
        '' Booking '' @ booking_id (hd (active_bookings_of ''01711000000'' (store single_state))) @
        '' has been cancelled successfully.''"
    by blast
  then have c1: "fst (fst (query_smart demo_answer ''u2'' ''t4'' (demo_request ''01711000000'') single_state)) =
        [CHR 0xE2, CHR 0x80, CHR 0x9A, CHR 0xC3, CHR 0xBA, CHR 0xC3, CHR 0x96] @
        '' Booking BK00001 has been cancelled successfully.''"
    by (simp add: single_state_active)
  from c n3 have "bookings (store (snd (query_smart demo_answer ''u2'' ''t4'' (demo_request ''01711000000'')
        single_state))) =
      map (\<lambda>x. if booking_id x = booking_id (hd (active_bookings_of ''01711000000'' (store single_state))) \<and>
                   status x = ''active''
                then x\<lparr>status := ''cancelled'', cancelled_date := Some ''t4''\<rparr> else x)
        (bookings (store single_state))"
    by blast
  then have c2: "bookings (store (snd (query_smart demo_answer ''u2'' ''t4'' (demo_request ''01711000000'')
        single_state))) =
        [BK1\<lparr>status := ''cancelled'', cancelled_date := Some ''t4''\<rparr>,
         BK2\<lparr>status := ''cancelled'', cancelled_date := Some ''t0''\<rparr>]"
    by (simp add: single_state_active)
  from h1 sid [of padded_phone] q1 n1 a1 a2 a3 a4 k n2 b1 b2 hs n3 c1 c2 show ?thesis
    by blast
qed


lemma first_of_two:
  "i < length [x, y] \<Longrightarrow> [x, y] ! i = x \<Longrightarrow> x \<noteq> y \<Longrightarrow> [x, y][i := z] = [z, y]"
  by (cases i) auto


lemma reissued_state_step:
  "reissued_state = step demo_data demo_answer stale_state (CreateBooking ''t6'' 300 rahim_body)"
  unfolding reissued_state_def stale_state_def
  using run_snoc [of demo_data demo_answer "initial_state demo_db"
      "[first_query, Query ''u2'' ''t4'' (demo_request ''01711000000''),
        DeleteBooking ''t5'' ''BK00002'' True]"
      "CreateBooking ''t6'' 300 rahim_body"]
  by simp

lemma reissued_state_eq:
  "reissued_state = stale_state\<lparr>store := (store stale_state)\<lparr>bookings := [BK1, rahim_row]\<rparr>\<rparr>"
  by (simp add: reissued_state_step store_eval demo_data_def rahim_body_def rahim_row_def string_eval
        format_05d_2 demo_strip_other_phone)

lemma reissued_state_session [simp]: "session_of reissued_state ''S1'' = demo_awaiting_choice"
  using stale_state_session by (simp add: reissued_state_eq session_of_def)

lemma reissued_state_bookings [simp]: "bookings (store reissued_state) = [BK1, rahim_row]"
  by (simp add: reissued_state_eq)

text \<open>
  When the identifier of the deleted booking has been given to a new booking, the answer
  \<open>BK00002\<close> still matches the entry offered to session S1, a booking of Karim that is no
  longer in the table, and the row cancelled is the booking of Rahim.
\<close>

lemma reissued_identifier_cancels_another_booking:
  "pending_bookings (session_of reissued_state ''S1'') = [BK2, BK1]
   \<and> name BK2 = ''Karim'' \<and> BK2 \<notin> set (bookings (store reissued_state))
   \<and> bookings (store reissued_state) = [BK1, rahim_row]
   \<and> booking_id rahim_row = ''BK00002'' \<and> name rahim_row = ''Rahim''
   \<and> fst (fst (query_smart demo_answer ''u3'' ''t7'' (demo_request ''BK00002'') reissued_state)) =
        [CHR 0xE2, CHR 0x80, CHR 0x9A, CHR 0xC3, CHR 0xBA, CHR 0xC3, CHR 0x96] @
        '' Booking BK00002 has been cancelled successfully.''
   \<and> bookings (store (snd (query_smart demo_answer ''u3'' ''t7'' (demo_request ''BK00002'')
        reissued_state))) =
        [BK1, rahim_row\<lparr>status := ''cancelled'', cancelled_date := Some ''t7''\<rparr>]"
proof -
  have a: "awaiting_booking_id (session_of reissued_state (request_session_id ''u3'' (demo_request ''BK00002'')))"
    and p: "\<not> awaiting_phone_for_cancel
      (session_of reissued_state (request_session_id ''u3'' (demo_request ''BK00002'')))"
    by simp_all
  have m: "strip (req_query (demo_request ''BK00002'')) \<in> set (map booking_id
     (pending_bookings (session_of reissued_state (request_session_id ''u3'' (demo_request ''BK00002'')))))"
    by (simp add: demo_strip_id)
  from choice_found(1) [OF a p m, of demo_answer "''t7''"]
  have 1: "fst (fst (query_smart demo_answer ''u3'' ''t7'' (demo_request ''BK00002'') reissued_state)) =
        [CHR 0xE2, CHR 0x80, CHR 0x9A, CHR 0xC3, CHR 0xBA, CHR 0xC3, CHR 0x96] @
        '' Booking BK00002 has been cancelled successfully.''"
    by (simp add: demo_strip_id cancelled_message_text)
  from choice_found(3) [OF a p m, of demo_answer "''t7''"]
  have 2: "bookings (store (snd (query_smart demo_answer ''u3'' ''t7'' (demo_request ''BK00002'')
        reissued_state))) =
        [BK1, rahim_row\<lparr>status := ''cancelled'', cancelled_date := Some ''t7''\<rparr>]"
    by (simp add: demo_strip_id cancel_row_def rahim_row_def)
  have 3: "name BK2 = ''Karim''" "BK2 \<notin> set (bookings (store reissued_state))"
    "booking_id rahim_row = ''BK00002''" "name rahim_row = ''Rahim''"
    by (simp_all add: BK1_def BK2_def demo_row_def rahim_row_def)
  from 1 2 3 show ?thesis by simp
qed





text \<open>
  By the trigger: session S1, whose phone is stored, asks to cancel after BK00002 was
  cancelled; BK00001 is the one active booking of the phone and is cancelled. By the
  first path: session S1 awaits a phone and gives \<open>01711000000\<close>, of which BK00001 is the
  one active booking.
\<close>

theorem single_active_booking_is_cancelled_witness:
  "demo_state3 = run demo_data demo_answer (initial_state demo_db)
     [first_query, Query ''u2'' ''t4'' (demo_request ''01711000000''),
      Query ''u3'' ''t5'' (demo_request ''BK00002'')]
   \<and> distinct (map booking_id (bookings (store demo_state3)))
   \<and> resolution_phone (demo_request ''I want to cancel my ticket'') (session_of demo_state3 ''S1'') =
        Some ''01711000000''
   \<and> ''S1'' = request_session_id ''u4'' (demo_request ''I want to cancel my ticket'')
   \<and> active_bookings_of ''01711000000'' (store demo_state3) = [BK1]
   \<and> fst (fst (query_smart demo_answer ''u4'' ''t6'' (demo_request ''I want to cancel my ticket'')
        demo_state3)) =
        [CHR 0xE2, CHR 0x80, CHR 0x9A, CHR 0xC3, CHR 0xBA, CHR 0xC3, CHR 0x96] @
        '' Booking BK00001 has been cancelled successfully.''
   \<and> bookings (store (snd (query_smart demo_answer ''u4'' ''t6''
        (demo_request ''I want to cancel my ticket'') demo_state3))) =
        [BK1\<lparr>status := ''cancelled'', cancelled_date := Some ''t6''\<rparr>,
         BK2\<lparr>status := ''cancelled'', cancelled_date := Some ''t5''\<rparr>]
   \<and> pending_bookings (session_of (snd (query_smart demo_answer ''u4'' ''t6''
        (demo_request ''I want to cancel my ticket'') demo_state3)) ''S1'') = []
   \<and> \<not> awaiting_booking_id (session_of (snd (query_smart demo_answer ''u4'' ''t6''
        (demo_request ''I want to cancel my ticket'') demo_state3)) ''S1'')
   \<and> \<not> awaiting_phone_for_cancel (session_of (snd (query_smart demo_answer ''u4'' ''t6''
        (demo_request ''I want to cancel my ticket'') demo_state3)) ''S1'')
   \<and> single_state = run demo_data demo_answer (initial_state single_db) [first_query]
   \<and> distinct (map booking_id (bookings (store single_state)))
   \<and> resolution_phone (demo_request ''01711000000'') (session_of single_state ''S1'') =
        Some ''01711000000''
   \<and> active_bookings_of ''01711000000'' (store single_state) = [BK1]
   \<and> bookings (store (snd (query_smart demo_answer ''u2'' ''t4'' (demo_request ''01711000000'')
        single_state))) =
        [BK1\<lparr>status := ''cancelled'', cancelled_date := Some ''t4''\<rparr>,
         BK2\<lparr>status := ''cancelled'', cancelled_date := Some ''t0''\<rparr>]
   \<and> \<not> awaiting_phone_for_cancel (session_of (snd (query_smart demo_answer ''u2'' ''t4''
        (demo_request ''01711000000'') single_state)) ''S1'')"
proof -
  have d1: "distinct (map booking_id (bookings (store demo_state3)))"
    and d2: "distinct (map booking_id (bookings (store single_state)))"
    by simp_all
  have r1: "resolution_phone (demo_request ''I want to cancel my ticket'') (session_of demo_state3 ''S1'') =
        Some ''01711000000''"
    by (simp add: resolution_phone_def demo_idle_def demo_keyword effective_phone_def
          demo_strip_phone without_prefix_def)
  have r2: "resolution_phone (demo_request ''01711000000'') (session_of single_state ''S1'') =
        Some ''01711000000''"
    by (simp add: demo_phone_resolution)
  have sid: "''S1'' = request_session_id u (demo_request q)" for u q
    by simp
  have ne1: "BK1 \<noteq> BK2\<lparr>status := ''cancelled'', cancelled_date := Some t\<rparr>" for t
    by (simp add: BK1_def BK2_def demo_row_def)
  note a = single_active_booking_is_cancelled [where st = demo_state3 and sid = "''S1''"
      and ?uuid4.0 = "''u4''" and r = "demo_request ''I want to cancel my ticket''"
      and ph = "''01711000000''" and b = BK1 and ga = demo_answer and now = "''t6''",
      OF demo_state3_def d1 r1 sid demo_state3_active refl refl]
  note b = single_active_booking_is_cancelled [where st = single_state and sid = "''S1''"
      and ?uuid4.0 = "''u2''" and r = "demo_request ''01711000000''"
      and ph = "''01711000000''" and b = BK1 and ga = demo_answer and now = "''t4''",
      OF single_state_def d2 r2 sid single_state_active refl refl]
  from a have a1: "fst (fst (query_smart demo_answer ''u4'' ''t6'' (demo_request ''I want to cancel my ticket'')
        demo_state3)) =
        [CHR 0xE2, CHR 0x80, CHR 0x9A, CHR 0xC3, CHR 0xBA, CHR 0xC3, CHR 0x96] @
        '' Booking BK00001 has been cancelled successfully.''"
    and a3: "pending_bookings (session_of (snd (query_smart demo_answer ''u4'' ''t6''
        (demo_request ''I want to cancel my ticket'') demo_state3)) ''S1'') = []"
    and a4: "\<not> awaiting_booking_id (session_of (snd (query_smart demo_answer ''u4'' ''t6''
        (demo_request ''I want to cancel my ticket'') demo_state3)) ''S1'')"
    and a5: "\<not> awaiting_phone_for_cancel (session_of (snd (query_smart demo_answer ''u4'' ''t6''
        (demo_request ''I want to cancel my ticket'') demo_state3)) ''S1'')"
    by simp_all
  from a obtain i where i: "i < length (bookings (store demo_state3))"
    "bookings (store demo_state3) ! i = BK1"
    "bookings (store (snd (query_smart demo_answer ''u4'' ''t6''
        (demo_request ''I want to cancel my ticket'') demo_state3))) =
      (bookings (store demo_state3))[i := BK1\<lparr>status := ''cancelled'', cancelled_date := Some ''t6''\<rparr>]"
    by blast
  from i(1,2) have "[BK1, BK2\<lparr>status := ''cancelled'', cancelled_date := Some ''t5''\<rparr>]
        [i := BK1\<lparr>status := ''cancelled'', cancelled_date := Some ''t6''\<rparr>] =
      [BK1\<lparr>status := ''cancelled'', cancelled_date := Some ''t6''\<rparr>,
       BK2\<lparr>status := ''cancelled'', cancelled_date := Some ''t5''\<rparr>]"
    by (intro first_of_two) (simp_all add: ne1)
  with i(3) have a2: "bookings (store (snd (query_smart demo_answer ''u4'' ''t6''
        (demo_request ''I want to cancel my ticket'') demo_state3))) =
        [BK1\<lparr>status := ''cancelled'', cancelled_date := Some ''t6''\<rparr>,
         BK2\<lparr>status := ''cancelled'', cancelled_date := Some ''t5''\<rparr>]"
    by simp
  from b have b2: "\<not> awaiting_phone_for_cancel (session_of (snd (query_smart demo_answer ''u2'' ''t4''
        (demo_request ''01711000000'') single_state)) ''S1'')"
    by simp
  from b obtain j where j: "j < length (bookings (store single_state))"
    "bookings (store single_state) ! j = BK1"
    "bookings (store (snd (query_smart demo_answer ''u2'' ''t4'' (demo_request ''01711000000'')
        single_state))) =
      (bookings (store single_state))[j := BK1\<lparr>status := ''cancelled'', cancelled_date := Some ''t4''\<rparr>]"
    by blast
  from j(1,2) have "[BK1, BK2\<lparr>status := ''cancelled'', cancelled_date := Some ''t0''\<rparr>]
        [j := BK1\<lparr>status := ''cancelled'', cancelled_date := Some ''t4''\<rparr>] =
      [BK1\<lparr>status := ''cancelled'', cancelled_date := Some ''t4''\<rparr>,
       BK2\<lparr>status := ''cancelled'', cancelled_date := Some ''t0''\<rparr>]"
    by (intro first_of_two) (simp_all add: ne1)
  with j(3) have b1: "bookings (store (snd (query_smart demo_answer ''u2'' ''t4'' (demo_request ''01711000000'')
        single_state))) =
        [BK1\<lparr>status := ''cancelled'', cancelled_date := Some ''t4''\<rparr>,
         BK2\<lparr>status := ''cancelled'', cancelled_date := Some ''t0''\<rparr>]"
    by simp
  from demo_state3_def d1 r1 sid [of "''u4''" "''I want to cancel my ticket''"] demo_state3_active
    a1 a2 a3 a4 a5 single_state_def d2 r2 single_state_active b1 b2
  show ?thesis by blast
qed

end
